theory Spec2Isabelle
  imports Main "HOL-Library.Word" "HOL-Library.Char_ord" "HOL-Library.List_Lexorder"
    "HOL-Library.Multiset"
begin

unbundle bit_operations_syntax

section \<open>Python values of the bulletin script\<close>

text \<open>
  The script \<^verbatim>\<open>bulletin/ava_bulletin_signage_fr.py\<close> works on the value that
  \<^verbatim>\<open>resp.json()\<close> returns: \<^verbatim>\<open>None\<close>, booleans, integers, strings, lists and
  dictionaries with string keys. A dictionary is an association list in insertion order;
  \<open>map_of\<close> reads it (a dictionary built by the JSON parser has distinct keys).
  Numbers with a fractional part are not part of the model. A string is the list of the
  bytes of its UTF-8 encoding; a character of the string is one UTF-8 sequence of one to
  four bytes (\<open>utf8_chars\<close>), and the order of the byte lists is the order of the
  strings by character code.

  A function of the script that can raise returns \<open>Inl\<close> of the exception or \<open>Inr\<close> of
  its value. The request to the service, the parsing of the date, the drawing of the
  compass and failures of the file system are outside the model: the payload and the time
  are inputs, and a file that the script writes is recorded by its path.
\<close>

datatype json =
    JNull
  | JBool bool
  | JInt int
  | JStr string
  | JList "json list"
  | JObj "(string \<times> json) list"

text \<open>The exceptions that the modelled statements can raise.\<close>

datatype error =
    AttributeError
  | TypeError
  | IndexError
  | KeyError
  | UnboundLocalError

type_synonym 'a result = "error + 'a"

definition bindR :: "'a result \<Rightarrow> ('a \<Rightarrow> 'b result) \<Rightarrow> 'b result" where
  "bindR m f = (case m of Inl e \<Rightarrow> Inl e | Inr x \<Rightarrow> f x)"

text \<open>Truth value of an object, as \<^verbatim>\<open>not x\<close> and \<^verbatim>\<open>x or y\<close> test it.\<close>

fun truthy :: "json \<Rightarrow> bool" where
  "truthy JNull = False"
| "truthy (JBool b) = b"
| "truthy (JInt i) = (i \<noteq> 0)"
| "truthy (JStr s) = (s \<noteq> [])"
| "truthy (JList xs) = (xs \<noteq> [])"
| "truthy (JObj kvs) = (kvs \<noteq> [])"

text \<open>
  \<^verbatim>\<open>d.get(k, default)\<close>: only a dictionary has the method; on every other object the
  attribute lookup raises \<^verbatim>\<open>AttributeError\<close>.
\<close>

fun py_get_default :: "json \<Rightarrow> string \<Rightarrow> json \<Rightarrow> json result" where
  "py_get_default (JObj kvs) k d = Inr (case map_of kvs k of None \<Rightarrow> d | Some v \<Rightarrow> v)"
| "py_get_default _ k d = Inl AttributeError"

text \<open>\<^verbatim>\<open>d.get(k)\<close> is \<^verbatim>\<open>d.get(k, None)\<close>.\<close>

definition py_get :: "json \<Rightarrow> string \<Rightarrow> json result" where
  "py_get d k = py_get_default d k JNull"

text \<open>
  The characters of a string: the first byte of a UTF-8 sequence tells its length.
\<close>

definition utf8_len :: "char \<Rightarrow> nat" where
  "utf8_len c =
     (let n = (of_char c :: nat)
      in if n < 0xC0 then 1 else if n < 0xE0 then 2 else if n < 0xF0 then 3 else 4)"

function utf8_chars :: "string \<Rightarrow> string list" where
  "utf8_chars [] = []"
| "utf8_chars (c # cs) =
     (c # take (utf8_len c - 1) cs) # utf8_chars (drop (utf8_len c - 1) cs)"
  by pat_completeness auto
termination
  by (relation "measure length") auto

text \<open>
  The items that \<^verbatim>\<open>for x in v\<close> and \<^verbatim>\<open>tuple(v)\<close> run through: the elements of a
  list, the characters of a string, the keys of a dictionary. Any other object is not
  iterable.
\<close>

fun py_iter :: "json \<Rightarrow> json list result" where
  "py_iter (JList xs) = Inr xs"
| "py_iter (JStr s) = Inr (map JStr (utf8_chars s))"
| "py_iter (JObj kvs) = Inr (map (\<lambda>kv. JStr (fst kv)) kvs)"
| "py_iter _ = Inl TypeError"

section \<open>Grouping keys\<close>

text \<open>
  \<^verbatim>\<open>
  def _elev_key(elev):
      if not elev:
          return ('all', None, None)
      return ('range', elev.get('lowerBound'), elev.get('upperBound'))
  \<close>
\<close>

definition elev_key :: "json \<Rightarrow> (string \<times> json \<times> json) result" where
  "elev_key elev =
     (if \<not> truthy elev then Inr (''all'', JNull, JNull)
      else bindR (py_get elev ''lowerBound'') (\<lambda>lower.
           bindR (py_get elev ''upperBound'') (\<lambda>upper.
           Inr (''range'', lower, upper))))"

text \<open>
  \<^verbatim>\<open>
  def _aspects_key(aspects):
      if aspects in (None, [], ['N', 'NE', 'E', 'SE', 'S', 'SO', 'O', 'NO']):
          return ('all',)
      return tuple(aspects)
  \<close>
  The membership test compares with \<^verbatim>\<open>==\<close>; against \<^verbatim>\<open>None\<close>, the empty list and a
  list of strings, a JSON value is equal exactly when it is the same value. A tuple is
  modelled by the list of its components.
\<close>

definition aspects_key :: "json \<Rightarrow> json list result" where
  "aspects_key aspects =
     (if aspects \<in> {JNull, JList [],
          JList [JStr ''N'', JStr ''NE'', JStr ''E'', JStr ''SE'',
                 JStr ''S'', JStr ''SO'', JStr ''O'', JStr ''NO'']}
      then Inr [JStr ''all'']
      else py_iter aspects)"

section \<open>Lookup tables\<close>

text \<open>
  The dictionaries of the script have string keys. \<^verbatim>\<open>table.get(key, default)\<close>
  hashes the key first: a list or a dictionary is unhashable (\<^verbatim>\<open>TypeError\<close>); a string
  is looked up; \<^verbatim>\<open>None\<close>, a boolean or an integer equals no string key.
\<close>

fun table_get :: "(string \<times> json) list \<Rightarrow> json \<Rightarrow> json \<Rightarrow> json result" where
  "table_get t (JStr s) d = Inr (case map_of t s of None \<Rightarrow> d | Some v \<Rightarrow> v)"
| "table_get t (JList xs) d = Inl TypeError"
| "table_get t (JObj kvs) d = Inl TypeError"
| "table_get t JNull d = Inr d"
| "table_get t (JBool b) d = Inr d"
| "table_get t (JInt i) d = Inr d"

definition warning_numbers :: "(string \<times> json) list" where
  "warning_numbers =
     [(''low'', JInt 1), (''moderate'', JInt 2), (''considerable'', JInt 3),
      (''high'', JInt 4), (''very high'', JInt 5)]"

definition subdiv_dict :: "(string \<times> json) list" where
  "subdiv_dict =
     [(''neutral'', JStr ''=''), (''minus'', JStr ''-''), (''plus'', JStr ''+''),
      (''equal'', JStr ''='')]"

section \<open>Danger level\<close>

text \<open>
  \<^verbatim>\<open>a > b\<close>: booleans and integers compare as numbers, two strings lexicographically;
  operands of different kinds, two \<^verbatim>\<open>None\<close> and two dictionaries raise \<^verbatim>\<open>TypeError\<close>.
  The comparison of two lists is left unspecified: the script compares only with a number
  on the right (lemma \<open>highest_warning_loop_numeric\<close>).
\<close>

fun num_of :: "json \<Rightarrow> int option" where
  "num_of (JInt i) = Some i"
| "num_of (JBool b) = Some (if b then 1 else 0)"
| "num_of _ = None"

definition py_gt :: "json \<Rightarrow> json \<Rightarrow> bool result" where
  "py_gt a b =
     (case (num_of a, num_of b) of
        (Some x, Some y) \<Rightarrow> Inr (y < x)
      | _ \<Rightarrow>
        (case (a, b) of
           (JStr s, JStr t) \<Rightarrow> Inr (t < s)
         | (JList xs, JList ys) \<Rightarrow> undefined
         | _ \<Rightarrow> Inl TypeError))"

text \<open>
  \<^verbatim>\<open>
  def highest_warning(region_info):
      for dr in region_info.get("dangerRatings", []):
          if 'mainValue' in locals() and mainValue is not None:
              old_warning = warning_numbers.get(mainValue, mainValue)
          else:
              old_warning = 0
          mainValue = dr.get("mainValue")
          new_warning = warning_numbers.get(mainValue, mainValue)
          if new_warning > old_warning:
              mainValue = new_warning
          else:
              mainValue = old_warning
      return mainValue
  \<close>
  The state of the loop is the binding of the local variable \<^verbatim>\<open>mainValue\<close>:
  \<open>None\<close> while it is unbound (it is not in \<^verbatim>\<open>locals()\<close> then), \<open>Some v\<close> once it
  is assigned. Returning it unbound raises \<^verbatim>\<open>UnboundLocalError\<close>.
\<close>

fun highest_warning_loop :: "json option \<Rightarrow> json list \<Rightarrow> json option result" where
  "highest_warning_loop mainValue [] = Inr mainValue"
| "highest_warning_loop mainValue (dr # rest) =
     bindR (case mainValue of
              None \<Rightarrow> Inr (JInt 0)
            | Some m \<Rightarrow> if m \<noteq> JNull then table_get warning_numbers m m else Inr (JInt 0))
       (\<lambda>old_warning.
     bindR (py_get dr ''mainValue'') (\<lambda>mainValue'.
     bindR (table_get warning_numbers mainValue' mainValue') (\<lambda>new_warning.
     bindR (py_gt new_warning old_warning) (\<lambda>higher.
     highest_warning_loop (Some (if higher then new_warning else old_warning)) rest))))"

definition highest_warning :: "json \<Rightarrow> json result" where
  "highest_warning region_info =
     bindR (py_get_default region_info ''dangerRatings'' (JList [])) (\<lambda>ratings.
     bindR (py_iter ratings) (\<lambda>drs.
     bindR (highest_warning_loop None drs) (\<lambda>mainValue.
     case mainValue of None \<Rightarrow> Inl UnboundLocalError | Some m \<Rightarrow> Inr m)))"

text \<open>
  \<^verbatim>\<open>x[0]\<close>: the first element of a list or the first character of a string
  (\<^verbatim>\<open>IndexError\<close> when empty); a dictionary has no key \<^verbatim>\<open>0\<close> (\<^verbatim>\<open>KeyError\<close>);
  \<^verbatim>\<open>None\<close>, booleans and integers are not subscriptable.
\<close>

fun py_index0 :: "json \<Rightarrow> json result" where
  "py_index0 (JList []) = Inl IndexError"
| "py_index0 (JList (x # xs)) = Inr x"
| "py_index0 (JStr []) = Inl IndexError"
| "py_index0 (JStr (c # cs)) = Inr (JStr (c # take (utf8_len c - 1) cs))"
| "py_index0 (JObj kvs) = Inl KeyError"
| "py_index0 _ = Inl TypeError"

text \<open>
  \<^verbatim>\<open>
  def warning_subdivision(region_info):
      dr = region_info.get("dangerRatings", [])[0]
      mainValue = dr.get("customData")
      ch = mainValue.get("CH")
      sub = ch.get("subdivision")
      sub_sign = subdiv_dict.get(sub, sub)
      if sub_sign is None:
          sub_sign = ("")
      return sub_sign
  \<close>
\<close>

definition warning_subdivision :: "json \<Rightarrow> json result" where
  "warning_subdivision region_info =
     bindR (py_get_default region_info ''dangerRatings'' (JList [])) (\<lambda>ratings.
     bindR (py_index0 ratings) (\<lambda>dr.
     bindR (py_get dr ''customData'') (\<lambda>mainValue.
     bindR (py_get mainValue ''CH'') (\<lambda>ch.
     bindR (py_get ch ''subdivision'') (\<lambda>sub.
     bindR (table_get subdiv_dict sub sub) (\<lambda>sub_sign.
     Inr (if sub_sign = JNull then JStr [] else sub_sign)))))))"

section \<open>Strings\<close>

text \<open>
  \<^verbatim>\<open>str(n)\<close> of an integer: decimal digits, with a minus sign when negative.
\<close>

fun dec_nat :: "nat \<Rightarrow> string" where
  "dec_nat n =
     (if n < 10 then [char_of (48 + n)]
      else dec_nat (n div 10) @ [char_of (48 + n mod 10)])"

declare dec_nat.simps [simp del]

text \<open>
  The text that an f-string puts for \<^verbatim>\<open>{x}\<close> (that is \<^verbatim>\<open>str(x)\<close>). It is given for
  \<^verbatim>\<open>None\<close>, booleans, integers, strings, the empty list and the empty dictionary. The
  text of a non-empty list or dictionary (Python's \<^verbatim>\<open>repr\<close>) is left unspecified:
  every value that the script formats was hashed before, or is falsy, or is a string.
\<close>

fun py_str :: "json \<Rightarrow> string" where
  "py_str JNull = ''None''"
| "py_str (JBool b) = (if b then ''True'' else ''False'')"
| "py_str (JInt i) = (if i < 0 then ''-'' @ dec_nat (nat (- i)) else dec_nat (nat i))"
| "py_str (JStr s) = s"
| "py_str (JList []) = ''[]''"
| "py_str (JObj []) = ''{}''"

text \<open>
  \<^verbatim>\<open>s.upper()\<close> of a string of ASCII characters: the letters a to z become A to Z. On
  other characters Python follows the case mappings of Unicode; the result for a string
  that holds such a character is left unspecified.
\<close>

definition upper_char :: "char \<Rightarrow> char" where
  "upper_char c =
     (if CHR ''a'' \<le> c \<and> c \<le> CHR ''z'' then char_of (of_char c - (32::nat)) else c)"

definition py_upper :: "string \<Rightarrow> string" where
  "py_upper s =
     (if list_all (\<lambda>c. (of_char c :: nat) < 128) s then map upper_char s else undefined)"

text \<open>
  \<^verbatim>\<open>s.strip()\<close> removes the white space at both ends. The characters that count as
  white space (\<^verbatim>\<open>str.isspace\<close>) are U+0009 to U+000D, U+001C to U+0020, U+0085,
  U+00A0, U+1680, U+2000 to U+200A, U+2028, U+2029, U+202F, U+205F and U+3000, listed here
  by their UTF-8 bytes.
\<close>

definition white_space :: "string list" where
  "white_space =
     [[CHR 0x09], [CHR 0x0A], [CHR 0x0B], [CHR 0x0C], [CHR 0x0D],
      [CHR 0x1C], [CHR 0x1D], [CHR 0x1E], [CHR 0x1F], [CHR 0x20],
      [CHR 0xC2, CHR 0x85], [CHR 0xC2, CHR 0xA0], [CHR 0xE1, CHR 0x9A, CHR 0x80],
      [CHR 0xE2, CHR 0x80, CHR 0x80], [CHR 0xE2, CHR 0x80, CHR 0x81],
      [CHR 0xE2, CHR 0x80, CHR 0x82], [CHR 0xE2, CHR 0x80, CHR 0x83],
      [CHR 0xE2, CHR 0x80, CHR 0x84], [CHR 0xE2, CHR 0x80, CHR 0x85],
      [CHR 0xE2, CHR 0x80, CHR 0x86], [CHR 0xE2, CHR 0x80, CHR 0x87],
      [CHR 0xE2, CHR 0x80, CHR 0x88], [CHR 0xE2, CHR 0x80, CHR 0x89],
      [CHR 0xE2, CHR 0x80, CHR 0x8A], [CHR 0xE2, CHR 0x80, CHR 0xA8],
      [CHR 0xE2, CHR 0x80, CHR 0xA9], [CHR 0xE2, CHR 0x80, CHR 0xAF],
      [CHR 0xE2, CHR 0x81, CHR 0x9F], [CHR 0xE3, CHR 0x80, CHR 0x80]]"

definition is_space :: "string \<Rightarrow> bool" where
  "is_space ch = (ch \<in> set white_space)"

definition py_strip :: "string \<Rightarrow> string" where
  "py_strip s = concat (rev (dropWhile is_space (rev (dropWhile is_space (utf8_chars s)))))"

text \<open>
  \<^verbatim>\<open>sep.join(xs)\<close>: every item must be a string, otherwise \<^verbatim>\<open>TypeError\<close>.
\<close>

fun str_items :: "json list \<Rightarrow> string list result" where
  "str_items [] = Inr []"
| "str_items (JStr s # xs) = bindR (str_items xs) (\<lambda>ss. Inr (s # ss))"
| "str_items (x # xs) = Inl TypeError"

fun intercalate :: "string \<Rightarrow> string list \<Rightarrow> string" where
  "intercalate sep [] = []"
| "intercalate sep [s] = s"
| "intercalate sep (s # t # ss) = s @ sep @ intercalate sep (t # ss)"

definition py_join :: "string \<Rightarrow> json list \<Rightarrow> string result" where
  "py_join sep xs = bindR (str_items xs) (\<lambda>ss. Inr (intercalate sep ss))"

section \<open>MD5\<close>

text \<open>
  \<^verbatim>\<open>hashlib.md5(bytes).hexdigest()\<close>, after RFC 1321: the message is padded with the
  byte 0x80, zero bytes up to 56 modulo 64 and its length in bits as 8 little-endian
  bytes; every block of 64 bytes is 16 little-endian words and goes through 64 steps.
\<close>

definition md5_K :: "32 word list" where
  "md5_K =
    [0xd76aa478, 0xe8c7b756, 0x242070db, 0xc1bdceee, 0xf57c0faf, 0x4787c62a, 0xa8304613, 0xfd469501,
     0x698098d8, 0x8b44f7af, 0xffff5bb1, 0x895cd7be, 0x6b901122, 0xfd987193, 0xa679438e, 0x49b40821,
     0xf61e2562, 0xc040b340, 0x265e5a51, 0xe9b6c7aa, 0xd62f105d, 0x02441453, 0xd8a1e681, 0xe7d3fbc8,
     0x21e1cde6, 0xc33707d6, 0xf4d50d87, 0x455a14ed, 0xa9e3e905, 0xfcefa3f8, 0x676f02d9, 0x8d2a4c8a,
     0xfffa3942, 0x8771f681, 0x6d9d6122, 0xfde5380c, 0xa4beea44, 0x4bdecfa9, 0xf6bb4b60, 0xbebfbc70,
     0x289b7ec6, 0xeaa127fa, 0xd4ef3085, 0x04881d05, 0xd9d4d039, 0xe6db99e5, 0x1fa27cf8, 0xc4ac5665,
     0xf4292244, 0x432aff97, 0xab9423a7, 0xfc93a039, 0x655b59c3, 0x8f0ccc92, 0xffeff47d, 0x85845dd1,
     0x6fa87e4f, 0xfe2ce6e0, 0xa3014314, 0x4e0811a1, 0xf7537e82, 0xbd3af235, 0x2ad7d2bb, 0xeb86d391]"

definition md5_s :: "nat list" where
  "md5_s =
    [7, 12, 17, 22, 7, 12, 17, 22, 7, 12, 17, 22, 7, 12, 17, 22,
     5, 9, 14, 20, 5, 9, 14, 20, 5, 9, 14, 20, 5, 9, 14, 20,
     4, 11, 16, 23, 4, 11, 16, 23, 4, 11, 16, 23, 4, 11, 16, 23,
     6, 10, 15, 21, 6, 10, 15, 21, 6, 10, 15, 21, 6, 10, 15, 21]"

type_synonym md5_state = "32 word \<times> 32 word \<times> 32 word \<times> 32 word"

definition md5_step :: "32 word list \<Rightarrow> nat \<Rightarrow> md5_state \<Rightarrow> md5_state" where
  "md5_step M i st =
     (case st of (A, B, C, D) \<Rightarrow>
        let (F, g) =
              (if i < 16 then ((B AND C) OR (NOT B AND D), i)
               else if i < 32 then ((D AND B) OR (NOT D AND C), (5 * i + 1) mod 16)
               else if i < 48 then (B XOR C XOR D, (3 * i + 5) mod 16)
               else (C XOR (B OR NOT D), (7 * i) mod 16));
            F' = F + A + md5_K ! i + M ! g
        in (D, B + word_rotl (md5_s ! i) F', B, C))"

definition md5_block :: "32 word list \<Rightarrow> md5_state \<Rightarrow> md5_state" where
  "md5_block M st =
     (case (st, fold (md5_step M) [0..<64] st) of
        ((a, b, c, d), (A, B, C, D)) \<Rightarrow> (a + A, b + B, c + C, d + D))"

definition le_bytes :: "nat \<Rightarrow> 'a::len word \<Rightarrow> 8 word list" where
  "le_bytes n w = map (\<lambda>j. ucast (drop_bit (8 * j) w)) [0..<n]"

definition md5_pad :: "8 word list \<Rightarrow> 8 word list" where
  "md5_pad bs =
     bs @ [0x80] @ replicate ((64 - (length bs + 9) mod 64) mod 64) 0
        @ le_bytes 8 (8 * (of_nat (length bs) :: 64 word))"

fun le_word :: "8 word list \<Rightarrow> 32 word" where
  "le_word [] = 0"
| "le_word (b # bs) = ucast b + 256 * le_word bs"

function chunks :: "nat \<Rightarrow> 'a list \<Rightarrow> 'a list list" where
  "chunks n xs = (if n = 0 \<or> xs = [] then [] else take n xs # chunks n (drop n xs))"
  by pat_completeness auto
termination
  by (relation "measure (\<lambda>(n, xs). length xs)") auto

declare chunks.simps [simp del]

definition md5_digest :: "8 word list \<Rightarrow> 8 word list" where
  "md5_digest bs =
     (case fold (\<lambda>blk. md5_block (map le_word (chunks 4 blk))) (chunks 64 (md5_pad bs))
             (0x67452301, 0xefcdab89, 0x98badcfe, 0x10325476) of
        (a, b, c, d) \<Rightarrow> concat (map (le_bytes 4) [a, b, c, d]))"

definition hex_digit :: "nat \<Rightarrow> char" where
  "hex_digit n = ''0123456789abcdef'' ! n"

definition hex_byte :: "8 word \<Rightarrow> string" where
  "hex_byte b = [hex_digit (unat (drop_bit 4 b)), hex_digit (unat (take_bit 4 b))]"

definition md5_hexdigest :: "string \<Rightarrow> string" where
  "md5_hexdigest s = concat (map hex_byte (md5_digest (map of_char s)))"

section \<open>Compass file name\<close>

text \<open>
  \<^verbatim>\<open>
  def filename_for_expos(expos, prefix="compass_fr_", fmt="svg"):
      key = ",".join(sorted(e.upper() for e in expos))
      h = hashlib.md5(key.encode()).hexdigest()[:10]
      return f"{prefix}{h}.{fmt}"
  \<close>
  \<^verbatim>\<open>e.upper()\<close> needs a string (\<^verbatim>\<open>AttributeError\<close> otherwise); \<^verbatim>\<open>sorted\<close> orders
  strings lexicographically by character code.
\<close>

fun upper_items :: "json list \<Rightarrow> string list result" where
  "upper_items [] = Inr []"
| "upper_items (JStr s # xs) = bindR (upper_items xs) (\<lambda>ss. Inr (py_upper s # ss))"
| "upper_items (x # xs) = Inl AttributeError"

definition filename_for_expos :: "json list \<Rightarrow> string \<Rightarrow> string \<Rightarrow> string result" where
  "filename_for_expos expos prefix fmt =
     bindR (upper_items expos) (\<lambda>ups.
       let key = intercalate '','' (sort ups);
           h = take 10 (md5_hexdigest key)
       in Inr (prefix @ h @ ''.'' @ fmt))"

section \<open>Keys of the groups\<close>

text \<open>
  \<^verbatim>\<open>
  def _comment_key(c):
      return (c or '').strip()
  \<close>
  Only a string has \<^verbatim>\<open>strip\<close>; a truthy value of another kind raises
  \<^verbatim>\<open>AttributeError\<close>.
\<close>

definition comment_key :: "json \<Rightarrow> string result" where
  "comment_key c =
     (case (if truthy c then c else JStr []) of
        JStr s \<Rightarrow> Inr (py_strip s)
      | _ \<Rightarrow> Inl AttributeError)"

text \<open>
  \<^verbatim>\<open>
  def is_pure_other(entries):
      return all(pt == "no_distinct_avalanche_problem" for pt, _ in entries)
  \<close>
\<close>

definition is_pure_other :: "(json \<times> json) list \<Rightarrow> bool" where
  "is_pure_other entries =
     list_all (\<lambda>(pt, label). pt = JStr ''no_distinct_avalanche_problem'') entries"

text \<open>
  A key of the dictionary \<^verbatim>\<open>groups\<close>, as the dictionary sees it. Hashing a key hashes
  its components, and a list or a dictionary among them raises \<^verbatim>\<open>TypeError\<close>. Two
  keys are the same key when their components are equal under \<^verbatim>\<open>==\<close>, which
  identifies \<^verbatim>\<open>True\<close> with 1 and \<^verbatim>\<open>False\<close> with 0: an \<open>atom\<close> is a hashable value up
  to that identification.
\<close>

datatype atom = ANone | ANum int | AStr string

fun atom_of :: "json \<Rightarrow> atom result" where
  "atom_of JNull = Inr ANone"
| "atom_of (JBool b) = Inr (ANum (if b then 1 else 0))"
| "atom_of (JInt i) = Inr (ANum i)"
| "atom_of (JStr s) = Inr (AStr s)"
| "atom_of (JList xs) = Inl TypeError"
| "atom_of (JObj kvs) = Inl TypeError"

fun atoms_of :: "json list \<Rightarrow> atom list result" where
  "atoms_of [] = Inr []"
| "atoms_of (x # xs) =
     bindR (atom_of x) (\<lambda>a. bindR (atoms_of xs) (\<lambda>as. Inr (a # as)))"

type_synonym raw_key = "(string \<times> json \<times> json) \<times> json list \<times> string"
type_synonym group_key = "(string \<times> atom \<times> atom) \<times> atom list \<times> string"

definition hash_key :: "raw_key \<Rightarrow> group_key result" where
  "hash_key k =
     (case k of ((tag, lower, upper), aspects, comment) \<Rightarrow>
        bindR (atom_of lower) (\<lambda>l.
        bindR (atom_of upper) (\<lambda>u.
        bindR (atoms_of aspects) (\<lambda>as.
        Inr ((tag, l, u), as, comment)))))"

section \<open>Display texts of a group\<close>

definition snow_type :: "(string \<times> json) list" where
  "snow_type =
     [(''new_snow'', JStr (''Neige fra'' @ [CHR 0xC3, CHR 0xAE] @ ''che'')),
      (''wind_slab'', JStr (''Neige souffl'' @ [CHR 0xC3, CHR 0xA9] @ ''e'')),
      (''gliding_snow'', JStr ''Avalanches de glissement''),
      (''wet_snow'', JStr (''Neige mouill'' @ [CHR 0xC3, CHR 0xA9] @ ''e'')),
      (''persistent_weak_layers'', JStr ''Neige ancienne'')]"

definition aspects_dict :: "(string \<times> json) list" where
  "aspects_dict =
     [(''N'', JStr ''N''), (''NE'', JStr ''NE''), (''E'', JStr ''E''), (''SE'', JStr ''SE''),
      (''S'', JStr ''S''), (''SW'', JStr ''SO''), (''W'', JStr ''O''), (''NW'', JStr ''NO'')]"

text \<open>
  Lines 508 to 522 of the script, the elevation text and the mountain icon of a new
  group:
  \<^verbatim>\<open>
  if elev:
      lower = elev.get("lowerBound")
      upper = elev.get("upperBound")
      if lower is None and upper is not None:
          elev_text = f"en dessous de {upper}m"
          mountain_icon = "below_mountain.png"
      elif upper is None and lower is not None:
          elev_text = f"a plus de {lower}m"
          mountain_icon = "above_mountain.png"
      else:
          elev_text = f"{lower}-{upper}m" if lower is not None and upper is not None
                      else "toutes les altitudes"
          mountain_icon = "all_mountain.png"
  else:
      elev_text = "toutes les altitudes"
      mountain_icon = "all_mountain.png"
  \<close>
  (the source has a grave accent on the first letter of the second text: the bytes
  0xC3 0xA0.)
\<close>

definition elev_text_icon :: "json \<Rightarrow> (string \<times> string) result" where
  "elev_text_icon elev =
     (if truthy elev then
        bindR (py_get elev ''lowerBound'') (\<lambda>lower.
        bindR (py_get elev ''upperBound'') (\<lambda>upper.
        if lower = JNull \<and> upper \<noteq> JNull then
          Inr (''en dessous de '' @ py_str upper @ ''m'', ''below_mountain.png'')
        else if upper = JNull \<and> lower \<noteq> JNull then
          Inr ([CHR 0xC3, CHR 0xA0] @ '' plus de '' @ py_str lower @ ''m'',
               ''above_mountain.png'')
        else
          Inr (if lower \<noteq> JNull \<and> upper \<noteq> JNull
               then py_str lower @ ''-'' @ py_str upper @ ''m''
               else ''toutes les altitudes'',
               ''all_mountain.png'')))
      else Inr (''toutes les altitudes'', ''all_mountain.png''))"

text \<open>
  Lines 525 to 539, the exposition text and the list of French direction names:
  \<^verbatim>\<open>
  if aspects in (None, [], ['N', 'NE', 'E', 'SE', 'S', 'SW', 'W', 'NW']):
      expo_text = "toutes les expositions"
      fr_asp_list = ['N', 'NE', 'E', 'SE', 'S', 'SO', 'O', 'NO']
  else:
      fr_asp_list = []
      for aspect in aspects:
          fr_asp = aspects_dict.get(aspect)
          if fr_asp is None:
              fr_asp = aspect
          fr_asp_list.append(fr_asp)
      expo_text = ", ".join(fr_asp_list)
  \<close>
\<close>

fun fr_aspects :: "json list \<Rightarrow> json list result" where
  "fr_aspects [] = Inr []"
| "fr_aspects (aspect # rest) =
     bindR (table_get aspects_dict aspect JNull) (\<lambda>fr_asp.
     bindR (fr_aspects rest) (\<lambda>frs.
     Inr ((if fr_asp = JNull then aspect else fr_asp) # frs)))"

definition expo_text_list :: "json \<Rightarrow> (string \<times> json list) result" where
  "expo_text_list aspects =
     (if aspects \<in> {JNull, JList [],
          JList [JStr ''N'', JStr ''NE'', JStr ''E'', JStr ''SE'',
                 JStr ''S'', JStr ''SW'', JStr ''W'', JStr ''NW'']}
      then Inr (''toutes les expositions'',
                [JStr ''N'', JStr ''NE'', JStr ''E'', JStr ''SE'',
                 JStr ''S'', JStr ''SO'', JStr ''O'', JStr ''NO''])
      else
        bindR (py_iter aspects) (\<lambda>items.
        bindR (fr_aspects items) (\<lambda>fr_asp_list.
        bindR (py_join '', '' fr_asp_list) (\<lambda>expo_text.
        Inr (expo_text, fr_asp_list)))))"

section \<open>Grouping\<close>

text \<open>
  A group is the dictionary that line 546 stores under the key. \<^verbatim>\<open>groups\<close> is an
  \<^verbatim>\<open>OrderedDict\<close>: an association list in the order of insertion, with distinct keys.
\<close>

record group =
  problem_entries :: "(json \<times> json) list"
  mountain_icon :: string
  elev_text :: string
  fname :: string
  expo_text :: string
  comment :: json
  raw :: "json list"

type_synonym groups = "(group_key \<times> group) list"

text \<open>
  Line 503:
  \<^verbatim>\<open>k = (_elev_key(elev), _aspects_key(aspects), _comment_key(ap.get("comment")))\<close>
\<close>

definition raw_key :: "json \<Rightarrow> json \<Rightarrow> json \<Rightarrow> raw_key result" where
  "raw_key ap elev aspects =
     bindR (elev_key elev) (\<lambda>ek.
     bindR (aspects_key aspects) (\<lambda>ak.
     bindR (py_get ap ''comment'') (\<lambda>c.
     bindR (comment_key c) (\<lambda>ck.
     Inr (ek, ak, ck)))))"

text \<open>The key under which a record is grouped (lines 501 to 505).\<close>

definition record_key :: "json \<Rightarrow> group_key result" where
  "record_key ap =
     bindR (py_get_default ap ''elevation'' (JObj [])) (\<lambda>elev.
     bindR (py_get ap ''aspects'') (\<lambda>aspects.
     bindR (raw_key ap elev aspects) hash_key))"

text \<open>
  Lines 556 to 559:
  \<^verbatim>\<open>
  pt = ap.get("problemType")
  german = snow_type.get(pt, pt)
  groups[k]["problem_entries"].append((pt, german))
  groups[k]["raw"].append(ap)
  \<close>
\<close>

definition add_entry :: "groups \<Rightarrow> group_key \<Rightarrow> json \<Rightarrow> groups result" where
  "add_entry groups k ap =
     bindR (py_get ap ''problemType'') (\<lambda>pt.
     bindR (table_get snow_type pt pt) (\<lambda>german.
     Inr (map (\<lambda>(k', g).
            if k' = k
            then (k', g\<lparr>problem_entries := problem_entries g @ [(pt, german)],
                         raw := raw g @ [ap]\<rparr>)
            else (k', g)) groups)))"

text \<open>
  One pass of the loop of line 500. The first component of the result lists the files
  that \<^verbatim>\<open>save_compass\<close> wrote in this pass (the drawing itself is not modelled); they
  stay written when a later statement raises.
\<close>

definition group_step :: "groups \<Rightarrow> json \<Rightarrow> string list \<times> groups result" where
  "group_step groups ap =
     (case bindR (py_get_default ap ''elevation'' (JObj [])) (\<lambda>elev.
           bindR (py_get ap ''aspects'') (\<lambda>aspects.
           bindR (raw_key ap elev aspects) (\<lambda>rk.
           bindR (hash_key rk) (\<lambda>k.
           if map_of groups k = None then
             bindR (elev_text_icon elev) (\<lambda>(et, icon).
             bindR (expo_text_list aspects) (\<lambda>(expo, fr_asp_list).
             bindR (filename_for_expos fr_asp_list ''compass_fr_'' ''svg'') (\<lambda>fn.
             Inr (k, Some (et, icon, expo, fn)))))
           else Inr (k, None))))) of
        Inl e \<Rightarrow> ([], Inl e)
      | Inr (k, None) \<Rightarrow> ([], add_entry groups k ap)
      | Inr (k, Some (et, icon, expo, fn)) \<Rightarrow>
          ([''bulletin/static/images/'' @ fn],
           bindR (py_get ap ''comment'') (\<lambda>c.
           add_entry
             (groups @ [(k, \<lparr>problem_entries = [], mountain_icon = icon, elev_text = et,
                             fname = fn, expo_text = expo, comment = c, raw = []\<rparr>)])
             k ap)))"

fun group_loop :: "string list \<Rightarrow> groups \<Rightarrow> json list \<Rightarrow> string list \<times> groups result" where
  "group_loop files groups [] = (files, Inr groups)"
| "group_loop files groups (ap # aps) =
     (case group_step groups ap of
        (written, Inl e) \<Rightarrow> (files @ written, Inl e)
      | (written, Inr groups') \<Rightarrow> group_loop (files @ written) groups' aps)"

text \<open>
  Lines 561 to 574:
  \<^verbatim>\<open>
  normal_groups = []
  other_groups = []
  for g in groups.values():
      (other_groups if is_pure_other(g["problem_entries"]) else normal_groups).append(g)
  ...
  for g in normal_groups:
      render_group_card(g)
  for g in other_groups:
      render_group_card(g)
  \<close>
  \<open>split_groups\<close> is the first loop, \<open>render_order\<close> the sequence of the groups
  that the two last loops hand to \<^verbatim>\<open>render_group_card\<close>.
\<close>

fun split_groups :: "group list \<Rightarrow> group list \<Rightarrow> group list \<Rightarrow> group list \<times> group list" where
  "split_groups normal_groups other_groups [] = (normal_groups, other_groups)"
| "split_groups normal_groups other_groups (g # gs) =
     (if is_pure_other (problem_entries g)
      then split_groups normal_groups (other_groups @ [g]) gs
      else split_groups (normal_groups @ [g]) other_groups gs)"

definition render_order :: "groups \<Rightarrow> group list" where
  "render_order groups =
     (case split_groups [] [] (map snd groups) of
        (normal_groups, other_groups) \<Rightarrow> normal_groups @ other_groups)"

text \<open>
  The order of first appearance, after the words of the specification: every element
  once, at the place where it is first seen.
\<close>

fun first_seen :: "'a list \<Rightarrow> 'a list" where
  "first_seen [] = []"
| "first_seen (x # xs) = x # removeAll x (first_seen xs)"

text \<open>The entry that lines 556 to 558 append to the group of a record.\<close>

definition problem_entry :: "json \<Rightarrow> (json \<times> json) result" where
  "problem_entry ap =
     bindR (py_get ap ''problemType'') (\<lambda>pt.
     bindR (table_get snow_type pt pt) (\<lambda>german.
     Inr (pt, german)))"

text \<open>
  The state of the grouping after the records \<open>seen\<close>: the keys are distinct, every
  record seen has its key among them, and the entries of a group are the entries of the
  records seen with its key, in their order.
\<close>

definition grouped :: "json list \<Rightarrow> groups \<Rightarrow> bool" where
  "grouped seen groups \<longleftrightarrow>
     distinct (map fst groups)
   \<and> (\<forall>ap \<in> set seen. \<exists>k \<in> set (map fst groups). record_key ap = Inr k)
   \<and> (\<forall>(k, g) \<in> set groups.
        map Inr (problem_entries g)
          = map problem_entry (filter (\<lambda>ap. record_key ap = Inr k) seen))"

section \<open>Markup\<close>

text \<open>
  \<^verbatim>\<open>styles()\<close> returns a constant text, the head of the document with its style sheet.
\<close>

definition styles :: string where
  "styles =
     ''<!DOCTYPE html>'' @ [CHR 0x0A]
     @ ''    <html lang='' @ [CHR 0x22] @ ''de'' @ [CHR 0x22] @ ''>'' @ [CHR 0x0A]
     @ ''    <head>'' @ [CHR 0x0A]
     @ ''      <meta charset='' @ [CHR 0x22] @ ''UTF-8'' @ [CHR 0x22] @ ''>'' @ [CHR 0x0A]
     @ ''      <title>Bulletin d'avalanche</title>'' @ [CHR 0x0A]
     @ ''      <style>'' @ [CHR 0x0A]
     @ ''        body {'' @ [CHR 0x0A]
     @ ''          font-family: Helvetica, Arial, sans-serif;'' @ [CHR 0x0A]
     @ ''          font-size: 16px;'' @ [CHR 0x0A]
     @ ''          font-weight: 300;'' @ [CHR 0x0A]
     @ ''          line-height: 1.5;'' @ [CHR 0x0A]
     @ ''          padding: 20px;'' @ [CHR 0x0A]
     @ ''          max-width: 2000px;'' @ [CHR 0x0A]
     @ ''          margin: auto;'' @ [CHR 0x0A]
     @ ''        }'' @ [CHR 0x0A]
     @ ''        h1, h2, h3, h4, h5, h6 {'' @ [CHR 0x0A]
     @ ''          font-family: Mark, Arial, sans-serif;'' @ [CHR 0x0A]
     @ ''          font-weight: 700;'' @ [CHR 0x0A]
     @ ''          letter-spacing: .02em;'' @ [CHR 0x0A]
     @ ''          margin-top: 1em;'' @ [CHR 0x0A]
     @ ''        }'' @ [CHR 0x0A]
     @ ''        .section {'' @ [CHR 0x0A]
     @ ''          margin-bottom: 20px;'' @ [CHR 0x0A]
     @ ''        }'' @ [CHR 0x0A]
     @ ''        .danger {'' @ [CHR 0x0A]
     @ ''          font-weight: bold;'' @ [CHR 0x0A]
     @ ''        }'' @ [CHR 0x0A]
     @ ''        .subheading {'' @ [CHR 0x0A]
     @ ''          font-weight: bold;'' @ [CHR 0x0A]
     @ ''          margin-top: 10px;'' @ [CHR 0x0A]
     @ ''        }'' @ [CHR 0x0A]
     @ ''        .alert-beacon{'' @ [CHR 0x0A]
     @ ''          position:fixed;'' @ [CHR 0x0A]
     @ ''          top:16px;'' @ [CHR 0x0A]
     @ ''          right:20px;'' @ [CHR 0x0A]
     @ ''          width:16px; height:16px;'' @ [CHR 0x0A]
     @ ''          border-radius:50%;'' @ [CHR 0x0A]
     @ ''          background:#ff3b30;                 /* default red */'' @ [CHR 0x0A]
     @ ''          box-shadow:'' @ [CHR 0x0A]
     @ ''            0 0 0 3px rgba(255,59,48,.25),'' @ [CHR 0x0A]
     @ ''            0 0 12px rgba(255,59,48,.6);'' @ [CHR 0x0A]
     @ ''          z-index:9999;'' @ [CHR 0x0A]
     @ ''          animation:beacon-blink 1.2s steps(2, end) infinite; /* ~0.83 Hz (safe) */'' @ [CHR 0x0A]
     @ ''        }'' @ [CHR 0x0A]
     @ [CHR 0x0A]
     @ ''        @keyframes beacon-blink{'' @ [CHR 0x0A]
     @ ''          0%,49%   { opacity:1; }'' @ [CHR 0x0A]
     @ ''          50%,100% { opacity:.15; }            /* dim instead of fully off = nicer */'' @ [CHR 0x0A]
     @ ''        }'' @ [CHR 0x0A]
     @ [CHR 0x0A]
     @ ''      </style>'' @ [CHR 0x0A]
     @ ''    </head>'' @ [CHR 0x0A]
     @ ''    <body>'' @ [CHR 0x0A]
     @ ''    ''"

definition warnings :: "(int \<times> json) list" where
  "warnings =
     [(1, JStr ''faible''),
      (2, JStr (''limit'' @ [CHR 0xC3, CHR 0xA9])),
      (3, JStr (''marqu'' @ [CHR 0xC3, CHR 0xA9])),
      (4, JStr ''fort''),
      (5, JStr (''tr'' @ [CHR 0xC3, CHR 0xA8] @ ''s fort''))]"

definition hex_warnings :: "(int \<times> json) list" where
  "hex_warnings =
     [(1, JStr ''#ccff66''),
      (2, JStr ''#ffff00''),
      (3, JStr ''#ff9900''),
      (4, JStr ''#ff0000''),
      (5, JStr ''#ff0000'')]"

text \<open>
  \<^verbatim>\<open>table.get(key, default)\<close> on a dictionary with the integer keys 1 to 5: a list or a
  dictionary is unhashable; a boolean or an integer is looked up as a number; \<^verbatim>\<open>None\<close>
  and strings equal no key.
\<close>

fun int_table_get :: "(int \<times> json) list \<Rightarrow> json \<Rightarrow> json \<Rightarrow> json result" where
  "int_table_get t (JList xs) d = Inl TypeError"
| "int_table_get t (JObj kvs) d = Inl TypeError"
| "int_table_get t k d =
     Inr (case num_of k of
            None \<Rightarrow> d
          | Some n \<Rightarrow> (case map_of t n of None \<Rightarrow> d | Some v \<Rightarrow> v))"

text \<open>
  \<^verbatim>\<open>a >= n\<close> for an integer literal \<^verbatim>\<open>n\<close>: a boolean or an integer is compared as a
  number, every other object raises \<^verbatim>\<open>TypeError\<close>.
\<close>

definition py_ge_int :: "json \<Rightarrow> int \<Rightarrow> bool result" where
  "py_ge_int a n = (case num_of a of Some x \<Rightarrow> Inr (n \<le> x) | None \<Rightarrow> Inl TypeError)"

text \<open>
  \<^verbatim>\<open>html_header(mainValue, subdiv_value, warnings, hex_warnings)\<close>, lines 247 to 285:
  the title, the beacon when the level is 3 or higher, the icon of the level and the level
  in words, on a coloured background when the colour is \<^verbatim>\<open>#ffff00\<close> or \<^verbatim>\<open>#ccff66\<close>.
  The lines are joined with a line feed. The two tables are parameters, written
  \<open>warnings'\<close> and \<open>hex_warnings'\<close> here; the script passes its tables
  \<open>warnings\<close> and \<open>hex_warnings\<close>.
\<close>

definition html_header ::
    "json \<Rightarrow> json \<Rightarrow> (int \<times> json) list \<Rightarrow> (int \<times> json) list \<Rightarrow> string result" where
  "html_header mainValue subdiv_value warnings' hex_warnings' =
     bindR (py_ge_int mainValue 3) (\<lambda>beacon.
     bindR (int_table_get warnings' mainValue mainValue) (\<lambda>german_warning.
     bindR (int_table_get hex_warnings' mainValue mainValue) (\<lambda>hex_warning.
     Inr (intercalate [CHR 0x0A]
       ([''<h1 style='margin:0;'>Bulletin d'avalanche</h1>'']
        @ (if beacon
           then [''<div class='alert-beacon alert' aria-hidden='true' title='Warnsignal'></div>'']
           else [])
        @ [''<div style='display:flex; align-items:center; justify-content:space-between; margin-bottom:30px;'>'',
           ''<div style='display:flex; align-items:center; gap:10px;'>'',
           ''<img src='static/images/'' @ py_str mainValue
          @ ''.png' style='height:60px;' />'',
           (if hex_warning = JStr ''#ffff00'' \<or> hex_warning = JStr ''#ccff66''
            then ''<span style='font-size:1.4em; font-weight:700; background-color:''
                 @ py_str hex_warning
                 @ ''; color:#000000; padding: 2px 6px; border-radius:4px; font-weight:700;'>Niveau de danger: ''
                 @ py_str german_warning @ '' ('' @ py_str mainValue @ py_str subdiv_value
                 @ '')</h2>''
            else ''<span style='font-size:1.4em; font-weight:700; color:''
                 @ py_str hex_warning @ ''; font-weight:700;'>Niveau de danger: ''
                 @ py_str german_warning @ '' ('' @ py_str mainValue @ py_str subdiv_value
                 @ '')</h2>''),
           ''</div>'',
           ''</div>''])))))"

text \<open>
  \<^verbatim>\<open>render_group_card(g)\<close>, lines 289 to 367. The problem types of the group are taken
  once each, in the order of their first entry (\<^verbatim>\<open>pt not in seen\<close> hashes \<^verbatim>\<open>pt\<close>); the
  result is the list of the lines that the function appends to \<^verbatim>\<open>html_output\<close>.
\<close>

fun dedup_types :: "atom list \<Rightarrow> (json \<times> json) list \<Rightarrow> (json \<times> json) list result" where
  "dedup_types seen [] = Inr []"
| "dedup_types seen ((pt, german) # rest) =
     bindR (atom_of pt) (\<lambda>a.
       if a \<notin> set seen
       then bindR (dedup_types (a # seen) rest) (\<lambda>types. Inr ((pt, german) # types))
       else dedup_types seen rest)"

definition type_row :: "json \<times> json \<Rightarrow> string list" where
  "type_row entry =
     (case entry of (pt, german) \<Rightarrow>
        [''<div style='display:flex; align-items:center; gap:10px; margin-bottom:6px;'>'']
        @ (if pt \<noteq> JStr ''no_distinct_avalanche_problem''
           then [''<img src='static/images/'' @ py_str pt
                @ ''.jpg' style='max-height:48px; max-width:48px;' />'']
           else [''<div style='width:48px; height:48px; flex:0 0 48px;'></div>''])
        @ (let label = (if pt \<noteq> JStr ''no_distinct_avalanche_problem''
                        then py_str german
                        else ''Pas de probl'' @ [CHR 0xC3, CHR 0xA8] @ ''me avalancheux particulier'')
           in [''<span style='display:inline-block; padding:2px 8px; border-radius:12px; background:#f2f2f2; font-weight:700;'>''
                @ label @ ''</span>''])
        @ [''</div>''])"

definition render_group_card :: "group \<Rightarrow> string list result" where
  "render_group_card g =
     bindR (dedup_types [] (problem_entries g)) (\<lambda>types0.
     bindR (dedup_types [] (problem_entries g)) (\<lambda>types.
     Inr ([''<div style='min-width:0; box-sizing:border-box;'>'',
           ''<div style='display:flex; align-items:flex-start; gap:16px;'>'',
           ''<div style='display:flex; flex-direction:column; gap:8px;'>'']
          @ concat (map type_row types)
          @ [''<div style='display:flex; align-items:center;'>'']
          @ (if mountain_icon g \<noteq> []
             then [''<img src='static/images/'' @ mountain_icon g @ [CHR 0x27]
                  @ '' style='max-height:60px; max-width:60px; margin-right:10px;' />'']
             else [])
          @ [''<p style='margin:0; overflow-wrap:anywhere; word-break:break-word;'><b style='font-weight:700;'>Plage d'altitude:</b> ''
          @ elev_text g @ ''</p>'',
             ''</div>'',
             ''<div style='display:flex; align-items:center;'>'']
          @ (if fname g \<noteq> []
             then [''<img src='static/images/'' @ fname g @ [CHR 0x27]
                  @ '' style='max-height:60px; max-width:60px; margin-right:10px;' />'']
             else [])
          @ [''<p style='margin:0; overflow-wrap:anywhere; word-break:break-word;'><b style='font-weight:700;'>Exposition:</b> ''
          @ expo_text g @ ''</p>'',
             ''</div>'',
             ''</div>'',
             ''<div style='flex:1; min-width:140px;'>'',
             ''<p style='margin:0; overflow-wrap:anywhere; word-break:break-word;'><b style='font-weight:700;'>Description des dangers:</b> ''
          @ py_str (comment g) @ ''</p>'',
             ''</div>'',
             ''</div>'',
             ''</div>''])))"

fun render_cards :: "group list \<Rightarrow> string list result" where
  "render_cards [] = Inr []"
| "render_cards (g # gs) =
     bindR (render_group_card g) (\<lambda>card.
     bindR (render_cards gs) (\<lambda>cards. Inr (card @ cards)))"

text \<open>
  \<^verbatim>\<open>
  def footer_date(ACTIVE_AT):
      dt = datetime.fromisoformat(ACTIVE_AT)
      ...
  \<close>
  The script imports the module (\<^verbatim>\<open>import datetime\<close>, line 2), so the name
  \<^verbatim>\<open>datetime\<close> is the module, which has no attribute \<^verbatim>\<open>fromisoformat\<close>: the first
  statement raises \<^verbatim>\<open>AttributeError\<close> whatever the argument is, and the rest of the
  function is never reached.
\<close>

definition footer_date :: "'t \<Rightarrow> string result" where
  "footer_date ACTIVE_AT = Inl AttributeError"

section \<open>The script\<close>

definition REGION_ID :: string where
  "REGION_ID = ''CH-4211''"

text \<open>
  \<^verbatim>\<open>d[key]\<close> with a string key: the value in a dictionary, \<^verbatim>\<open>KeyError\<close> when the key
  is missing, \<^verbatim>\<open>TypeError\<close> on every other object.
\<close>

fun py_item :: "json \<Rightarrow> string \<Rightarrow> json result" where
  "py_item (JObj kvs) k = (case map_of kvs k of None \<Rightarrow> Inl KeyError | Some v \<Rightarrow> Inr v)"
| "py_item _ k = Inl TypeError"

text \<open>
  Lines 468 to 475:
  \<^verbatim>\<open>
  region_info = None
  for feat in data.get("features", []):
      for r in feat.get("properties", {}).get("regions", []):
          if r.get("regionID") == REGION_ID:
              region_info = feat["properties"]
              break
      if region_info:
          break
  \<close>
\<close>

fun regions_loop :: "json \<Rightarrow> json \<Rightarrow> json list \<Rightarrow> json result" where
  "regions_loop region_info feat [] = Inr region_info"
| "regions_loop region_info feat (r # rs) =
     bindR (py_get r ''regionID'') (\<lambda>region_id.
       if region_id = JStr REGION_ID then py_item feat ''properties''
       else regions_loop region_info feat rs)"

fun features_loop :: "json \<Rightarrow> json list \<Rightarrow> json result" where
  "features_loop region_info [] = Inr region_info"
| "features_loop region_info (feat # feats) =
     bindR (py_get_default feat ''properties'' (JObj [])) (\<lambda>properties.
     bindR (py_get_default properties ''regions'' (JList [])) (\<lambda>regions.
     bindR (py_iter regions) (\<lambda>rs.
     bindR (regions_loop region_info feat rs) (\<lambda>region_info'.
       if truthy region_info' then Inr region_info'
       else features_loop region_info' feats))))"

definition find_region :: "json \<Rightarrow> json result" where
  "find_region data =
     bindR (py_get_default data ''features'' (JList [])) (\<lambda>features.
     bindR (py_iter features) (\<lambda>feats.
     features_loop JNull feats))"

text \<open>
  The command line: \<^verbatim>\<open>--date\<close> (default \<^verbatim>\<open>today\<close>) and \<^verbatim>\<open>--out\<close> (default
  \<^verbatim>\<open>bulletin/output/bulletin.html\<close>), lines 446 to 449.
\<close>

record args =
  date :: string
  out :: string

definition default_args :: args where
  "default_args = \<lparr>date = ''today'', out = ''bulletin/output/bulletin.html''\<rparr>"

text \<open>
  What a run of the script leaves behind: the lines printed, the files that
  \<^verbatim>\<open>save_compass\<close> wrote, the file written at line 588 with its text, and the exception
  that ended the run, if any.
\<close>

record outcome =
  printed :: "string list"
  compass_files :: "string list"
  html_file :: "(string \<times> string) option"
  raised :: "error option"

text \<open>\<^verbatim>\<open>BASE / name\<close> for the directory \<^verbatim>\<open>BASE\<close> of the script.\<close>

definition path_join :: "string \<Rightarrow> string \<Rightarrow> string" where
  "path_join dir name = (if dir = ''/'' then dir @ name else dir @ ''/'' @ name)"

text \<open>
  The script from line 467 on. Its inputs are the parsed command line, the directory
  \<^verbatim>\<open>BASE\<close> of the script file, the time \<^verbatim>\<open>ACTIVE_AT\<close> that \<^verbatim>\<open>parse_active_at\<close>
  returned and the payload \<^verbatim>\<open>data\<close> that the service returned; a failure of the
  request itself is outside the model.
  \<^verbatim>\<open>
  if not region_info:
      print(f"Region de {REGION_ID} introuvable.")
  else:
      html_output = []
      html_output.append(styles())
      mainValue = highest_warning(region_info)
      subdiv_value = warning_subdivision(region_info)
      html_output.append(html_header(mainValue, subdiv_value, warnings, hex_warnings))
      groups = OrderedDict()
      for ap in region_info.get("avalancheProblems", []): ...
      ...
      html_output.append("<div style='display:grid; ...'>")
      for g in normal_groups: render_group_card(g)
      for g in other_groups: render_group_card(g)
      html_output.append("</div>")
      html_output.append(footer_date(ACTIVE_AT))
      html_output.append("</body></html>")
      BASE = Path(__file__).resolve().parent
      out_path = BASE / "signage_bulletin_fr.html"
      with open(out_path, "w", encoding="utf-8") as f:
          f.write("\n".join(html_output))
  \<close>
\<close>

definition main :: "args \<Rightarrow> string \<Rightarrow> 't \<Rightarrow> json \<Rightarrow> outcome" where
  "main args BASE ACTIVE_AT data =
     (case find_region data of
        Inl e \<Rightarrow> \<lparr>printed = [], compass_files = [], html_file = None, raised = Some e\<rparr>
      | Inr region_info \<Rightarrow>
        if \<not> truthy region_info then
          \<lparr>printed = [''Region de '' @ REGION_ID @ '' introuvable.''], compass_files = [],
           html_file = None, raised = None\<rparr>
        else
          (case bindR (highest_warning region_info) (\<lambda>mainValue.
                bindR (warning_subdivision region_info) (\<lambda>subdiv_value.
                bindR (html_header mainValue subdiv_value warnings hex_warnings) (\<lambda>html_top.
                bindR (py_get_default region_info ''avalancheProblems'' (JList [])) (\<lambda>problems.
                bindR (py_iter problems) (\<lambda>aps.
                Inr (html_top, aps)))))) of
             Inl e \<Rightarrow>
               \<lparr>printed = [], compass_files = [], html_file = None, raised = Some e\<rparr>
           | Inr (html_top, aps) \<Rightarrow>
             (case group_loop [] [] aps of
                (files, Inl e) \<Rightarrow>
                  \<lparr>printed = [], compass_files = files, html_file = None, raised = Some e\<rparr>
              | (files, Inr groups) \<Rightarrow>
                (case bindR (render_cards (render_order groups)) (\<lambda>cards.
                      bindR (footer_date ACTIVE_AT) (\<lambda>html_date.
                      Inr ([styles, html_top,
                            ''<div style='display:grid; grid-template-columns:repeat(2, minmax(0, 1fr)); gap:40px; align-items:start; margin-bottom:30px;'>'']
                           @ cards
                           @ [''</div>'', html_date, ''</body></html>'']))) of
                   Inl e \<Rightarrow>
                     \<lparr>printed = [], compass_files = files, html_file = None,
                      raised = Some e\<rparr>
                 | Inr html_output \<Rightarrow>
                     \<lparr>printed = [], compass_files = files,
                      html_file = Some (path_join BASE ''signage_bulletin_fr.html'',
                                        intercalate [CHR 0x0A] html_output),
                      raised = None\<rparr>))))"

section \<open>Properties of the grouping keys\<close>

text \<open>
  \<open>elev_key\<close> raises exactly on a truthy value that is not a dictionary (a non-empty
  string or list, a non-zero number, \<^verbatim>\<open>True\<close>). \<open>aspects_key\<close> gives the sentinel
  for \<^verbatim>\<open>None\<close>, the empty list and the list of the French names, and keeps every other
  list as it is.
\<close>

lemma elev_key_raises_iff:
  "(\<exists>e. elev_key elev = Inl e) \<longleftrightarrow> truthy elev \<and> (\<forall>kvs. elev \<noteq> JObj kvs)"
  by (cases elev) (auto simp: elev_key_def py_get_def bindR_def)

lemma aspects_key_sentinel:
  "aspects_key JNull = Inr [JStr ''all'']"
  "aspects_key (JList []) = Inr [JStr ''all'']"
  "aspects_key (JList [JStr ''N'', JStr ''NE'', JStr ''E'', JStr ''SE'',
                       JStr ''S'', JStr ''SO'', JStr ''O'', JStr ''NO''])
     = Inr [JStr ''all'']"
  by (simp_all add: aspects_key_def)

lemma aspects_key_keeps_order:
  assumes "xs \<noteq> []"
    and "xs \<noteq> [JStr ''N'', JStr ''NE'', JStr ''E'', JStr ''SE'',
                JStr ''S'', JStr ''SO'', JStr ''O'', JStr ''NO'']"
  shows "aspects_key (JList xs) = Inr xs"
  using assms by (simp add: aspects_key_def)

text \<open>
  C7 as it is stated, at the elevation \<^verbatim>\<open>"2200"\<close>: the string is truthy and has no
  method \<^verbatim>\<open>get\<close>, so \<open>elev_key\<close> raises \<^verbatim>\<open>AttributeError\<close> and returns no key.
\<close>

theorem elev_key_string_raises:
  "elev_key (JStr ''2200'') = Inl AttributeError"
  by (simp add: elev_key_def py_get_def bindR_def)

text \<open>
  C7, amended. On every elevation that is falsy (\<^verbatim>\<open>None\<close> among them) or a dictionary
  \<open>elev_key\<close> returns a key; on every other value, that is a truthy value that is not a
  dictionary, it raises \<^verbatim>\<open>AttributeError\<close>. \<^verbatim>\<open>None\<close> and the empty dictionary both
  give \<^verbatim>\<open>('all', None, None)\<close>.
\<close>

theorem elev_key_total_on_dicts:
  "((\<not> truthy elev \<or> (\<exists>kvs. elev = JObj kvs)) \<longrightarrow> (\<exists>k. elev_key elev = Inr k))
   \<and> ((truthy elev \<and> (\<forall>kvs. elev \<noteq> JObj kvs)) \<longrightarrow> elev_key elev = Inl AttributeError)
   \<and> elev_key JNull = Inr (''all'', JNull, JNull)
   \<and> elev_key (JObj []) = Inr (''all'', JNull, JNull)
   \<and> elev_key JNull = elev_key (JObj [])"
  by (cases elev) (auto simp: elev_key_def py_get_def bindR_def)

theorem elev_key_total_on_dicts_witness:
  "(\<exists>k. elev_key (JObj [(''lowerBound'', JInt 2200)]) = Inr k)
   \<and> elev_key (JObj [(''lowerBound'', JInt 2200)]) = Inr (''range'', JInt 2200, JNull)
   \<and> (\<exists>k. elev_key JNull = Inr k)
   \<and> elev_key (JList [JInt 1]) = Inl AttributeError
   \<and> elev_key JNull = elev_key (JObj [])"
  using elev_key_total_on_dicts [of "JObj [(''lowerBound'', JInt 2200)]"]
    elev_key_total_on_dicts [of JNull]
    elev_key_total_on_dicts [of "JList [JInt 1]"]
  by (simp add: elev_key_def py_get_def bindR_def)

text \<open>
  C2 at the full set of directions as the bulletin service names them
  (N, NE, E, SE, S, SW, W, NW): \<open>aspects_key\<close> does not return the
  sentinel \<^verbatim>\<open>('all',)\<close> but the eight directions themselves, since the list it compares
  with holds the French names SO, O, NO.
\<close>

theorem aspects_key_full_set_not_all:
  "aspects_key (JList [JStr ''N'', JStr ''NE'', JStr ''E'', JStr ''SE'',
                       JStr ''S'', JStr ''SW'', JStr ''W'', JStr ''NW''])
   = Inr [JStr ''N'', JStr ''NE'', JStr ''E'', JStr ''SE'',
          JStr ''S'', JStr ''SW'', JStr ''W'', JStr ''NW'']
   \<and> aspects_key (JList [JStr ''N'', JStr ''NE'', JStr ''E'', JStr ''SE'',
                       JStr ''S'', JStr ''SW'', JStr ''W'', JStr ''NW''])
     \<noteq> Inr [JStr ''all'']"
  by (simp add: aspects_key_def)

section \<open>Properties of the danger level\<close>

lemma highest_warning_loop_ranks:
  "list_all2 (\<lambda>dr r. \<exists>l. py_get dr ''mainValue'' = Inr (JStr l)
                         \<and> map_of warning_numbers l = Some (JInt r)) drs ranks
   \<Longrightarrow> highest_warning_loop (Some (JInt m)) drs = Inr (Some (JInt (fold max ranks m)))"
proof (induction drs ranks arbitrary: m rule: list_all2_induct)
  case Nil
  then show ?case by simp
next
  case (Cons dr drs r ranks)
  then obtain l where l: "py_get dr ''mainValue'' = Inr (JStr l)"
      "map_of warning_numbers l = Some (JInt r)"
    by blast
  have step: "highest_warning_loop (Some (JInt m)) (dr # drs)
      = highest_warning_loop (Some (JInt (max r m))) drs"
    using l by (simp add: bindR_def py_gt_def max_def)
  show ?case
    unfolding step using Cons.IH [of "max r m"] by simp
qed

lemma warning_numbers_positive:
  "map_of warning_numbers l = Some (JInt r) \<Longrightarrow> 0 < r"
  by (auto simp: warning_numbers_def split: if_splits)

lemma Max_insert_max:
  "finite S \<Longrightarrow> Max (insert (max a r) S) = Max (insert a (insert r S))" for a :: int
  by (cases "S = {}") (simp_all add: max.assoc)

lemma fold_max_Max: "fold max rs (r::int) = Max (set (r # rs))"
proof (induction rs arbitrary: r)
  case Nil
  then show ?case by simp
next
  case (Cons a rs)
  have "fold max (a # rs) r = Max (insert (max a r) (set rs))"
    using Cons.IH [of "max a r"] by simp
  also have "\<dots> = Max (insert a (insert r (set rs)))"
    by (rule Max_insert_max) simp
  finally show ?case by (simp add: insert_commute)
qed

text \<open>
  C3. When the rating list is not empty and every rating carries a label of
  \<open>warning_numbers\<close> (\<open>ranks\<close> lists the ranks of the labels, in order),
  \<open>highest_warning\<close> returns the largest of the ranks. The witness is the list
  low, high, moderate, with result 4.
\<close>

theorem highest_warning_max:
  assumes ri: "py_get_default region_info ''dangerRatings'' (JList []) = Inr (JList drs)"
    and ne: "drs \<noteq> []"
    and known: "list_all2 (\<lambda>dr r. \<exists>l. py_get dr ''mainValue'' = Inr (JStr l)
                         \<and> map_of warning_numbers l = Some (JInt r)) drs ranks"
  shows "highest_warning region_info = Inr (JInt (Max (set ranks)))"
proof -
  from ne known obtain dr drs' r ranks' where
    s: "drs = dr # drs'" "ranks = r # ranks'" 
    by (cases drs; cases ranks) auto
  with known obtain l where l: "py_get dr ''mainValue'' = Inr (JStr l)"
      "map_of warning_numbers l = Some (JInt r)"
    and rest: "list_all2 (\<lambda>dr r. \<exists>l. py_get dr ''mainValue'' = Inr (JStr l)
                         \<and> map_of warning_numbers l = Some (JInt r)) drs' ranks'"
    by auto
  have pos: "0 < r" using l(2) by (rule warning_numbers_positive)
  have "highest_warning_loop None drs = highest_warning_loop (Some (JInt r)) drs'"
    using l pos by (simp add: s bindR_def py_gt_def)
  also have "\<dots> = Inr (Some (JInt (fold max ranks' r)))"
    using rest by (rule highest_warning_loop_ranks)
  finally show ?thesis
    using ri by (simp add: highest_warning_def bindR_def fold_max_Max s)
qed

theorem highest_warning_max_witness:
  "highest_warning (JObj [(''dangerRatings'',
      JList [JObj [(''mainValue'', JStr ''low'')], JObj [(''mainValue'', JStr ''high'')],
             JObj [(''mainValue'', JStr ''moderate'')]])]) = Inr (JInt 4)"
  using highest_warning_max [of
      "JObj [(''dangerRatings'',
        JList [JObj [(''mainValue'', JStr ''low'')], JObj [(''mainValue'', JStr ''high'')],
               JObj [(''mainValue'', JStr ''moderate'')]])]"
      "[JObj [(''mainValue'', JStr ''low'')], JObj [(''mainValue'', JStr ''high'')],
        JObj [(''mainValue'', JStr ''moderate'')]]"
      "[1, 4, 2]"]
  by (simp add: py_get_def warning_numbers_def)

text \<open>
  When the first rating has \<^verbatim>\<open>customData\<close> with a \<^verbatim>\<open>CH\<close> entry,
  \<open>warning_subdivision\<close> gives the empty string for a missing subdivision, the sign of
  \<open>subdiv_dict\<close> for a subdivision of the table, and an unknown subdivision unchanged.
\<close>

lemma warning_subdivision_present:
  assumes "py_get_default region_info ''dangerRatings'' (JList []) = Inr (JList (dr # rest))"
    and "py_get dr ''customData'' = Inr custom"
    and "py_get custom ''CH'' = Inr ch"
    and "py_get ch ''subdivision'' = Inr sub"
  shows "sub = JNull \<Longrightarrow> warning_subdivision region_info = Inr (JStr [])"
    and "sub = JStr s \<Longrightarrow> map_of subdiv_dict s = Some sign
         \<Longrightarrow> warning_subdivision region_info = Inr sign"
    and "sub = JStr s \<Longrightarrow> map_of subdiv_dict s = None
         \<Longrightarrow> warning_subdivision region_info = Inr (JStr s)"
proof -
  have w: "warning_subdivision region_info
      = bindR (table_get subdiv_dict sub sub) (\<lambda>sub_sign.
          Inr (if sub_sign = JNull then JStr [] else sub_sign))"
    using assms by (simp add: warning_subdivision_def bindR_def)
  show "sub = JNull \<Longrightarrow> warning_subdivision region_info = Inr (JStr [])"
    unfolding w by (simp add: bindR_def)
  show "sub = JStr s \<Longrightarrow> map_of subdiv_dict s = Some sign
         \<Longrightarrow> warning_subdivision region_info = Inr sign"
    unfolding w by (auto simp: bindR_def subdiv_dict_def split: if_splits)
  show "sub = JStr s \<Longrightarrow> map_of subdiv_dict s = None
         \<Longrightarrow> warning_subdivision region_info = Inr (JStr s)"
    unfolding w by (simp add: bindR_def)
qed

text \<open>
  C4 at a first rating without \<^verbatim>\<open>customData\<close>, and at one whose \<^verbatim>\<open>customData\<close>
  has no \<^verbatim>\<open>CH\<close> entry: \<open>warning_subdivision\<close> does not return the empty string, it
  raises \<^verbatim>\<open>AttributeError\<close> (\<^verbatim>\<open>.get\<close> on \<^verbatim>\<open>None\<close>).
\<close>

theorem warning_subdivision_missing_custom_data:
  "warning_subdivision (JObj [(''dangerRatings'',
      JList [JObj [(''mainValue'', JStr ''low'')]])]) = Inl AttributeError
   \<and> warning_subdivision (JObj [(''dangerRatings'',
      JList [JObj [(''mainValue'', JStr ''low''), (''customData'', JObj [])]])])
     = Inl AttributeError"
  by (simp add: warning_subdivision_def bindR_def py_get_def)

text \<open>
  C6. Two regions whose rating lists start with the same rating give the same result of
  \<open>warning_subdivision\<close>, an exception included, whatever follows the first rating.
\<close>

theorem warning_subdivision_first_only:
  assumes "py_get_default ri1 ''dangerRatings'' (JList []) = Inr (JList (dr # tail1))"
    and "py_get_default ri2 ''dangerRatings'' (JList []) = Inr (JList (dr # tail2))"
  shows "warning_subdivision ri1 = warning_subdivision ri2"
  using assms by (simp add: warning_subdivision_def bindR_def)

theorem warning_subdivision_first_only_witness:
  "warning_subdivision (JObj [(''dangerRatings'',
      JList [JObj [(''mainValue'', JStr ''considerable''),
                   (''customData'', JObj [(''CH'', JObj [(''subdivision'', JStr ''plus'')])])],
             JObj [(''mainValue'', JStr ''high''),
                   (''customData'', JObj [(''CH'', JObj [(''subdivision'', JStr ''minus'')])])]])])
   = warning_subdivision (JObj [(''dangerRatings'',
      JList [JObj [(''mainValue'', JStr ''considerable''),
                   (''customData'', JObj [(''CH'', JObj [(''subdivision'', JStr ''plus'')])])]])])
   \<and> warning_subdivision (JObj [(''dangerRatings'',
      JList [JObj [(''mainValue'', JStr ''considerable''),
                   (''customData'', JObj [(''CH'', JObj [(''subdivision'', JStr ''plus'')])])]])])
     = Inr (JStr ''+'')"
  using warning_subdivision_first_only [of
      "JObj [(''dangerRatings'',
      JList [JObj [(''mainValue'', JStr ''considerable''),
                   (''customData'', JObj [(''CH'', JObj [(''subdivision'', JStr ''plus'')])])],
             JObj [(''mainValue'', JStr ''high''),
                   (''customData'', JObj [(''CH'', JObj [(''subdivision'', JStr ''minus'')])])]])]"
      "JObj [(''mainValue'', JStr ''considerable''),
                   (''customData'', JObj [(''CH'', JObj [(''subdivision'', JStr ''plus'')])])]"
      "[JObj [(''mainValue'', JStr ''high''),
                   (''customData'', JObj [(''CH'', JObj [(''subdivision'', JStr ''minus'')])])]]"
      "JObj [(''dangerRatings'',
      JList [JObj [(''mainValue'', JStr ''considerable''),
                   (''customData'', JObj [(''CH'', JObj [(''subdivision'', JStr ''plus'')])])]])]"
      "[]"]
  by (simp add: warning_subdivision_def bindR_def py_get_def subdiv_dict_def)


section \<open>Properties of the grouping\<close>

lemma bindR_Inr_iff: "bindR m f = Inr y \<longleftrightarrow> (\<exists>x. m = Inr x \<and> f x = Inr y)"
  by (cases m) (simp_all add: bindR_def)

lemma add_entry_keys: "add_entry groups k ap = Inr groups' \<Longrightarrow> map fst groups' = map fst groups"
  by (auto simp: add_entry_def bindR_Inr_iff split: prod.splits if_splits)

lemma group_step_keys:
  assumes "group_step groups ap = (written, Inr groups')"
  shows "\<exists>k. record_key ap = Inr k
           \<and> map fst groups' = (if k \<in> set (map fst groups) then map fst groups
                                else map fst groups @ [k])"
proof -
  let ?pre = "bindR (py_get_default ap ''elevation'' (JObj [])) (\<lambda>elev.
           bindR (py_get ap ''aspects'') (\<lambda>aspects.
           bindR (raw_key ap elev aspects) (\<lambda>rk.
           bindR (hash_key rk) (\<lambda>k.
           if map_of groups k = None then
             bindR (elev_text_icon elev) (\<lambda>(et, icon).
             bindR (expo_text_list aspects) (\<lambda>(expo, fr_asp_list).
             bindR (filename_for_expos fr_asp_list ''compass_fr_'' ''svg'') (\<lambda>fn.
             Inr (k, Some (et, icon, expo, fn)))))
           else Inr (k, None)))))"
  from assms obtain k new where pre: "?pre = Inr (k, new)"
    unfolding group_step_def by (cases ?pre) (auto split: prod.splits)
  then have key: "record_key ap = Inr k"
    and new: "new = None \<longleftrightarrow> map_of groups k \<noteq> None"
    by (auto simp: record_key_def bindR_Inr_iff split: if_splits prod.splits)
  have mem: "map_of groups k \<noteq> None \<longleftrightarrow> k \<in> set (map fst groups)"
    by (simp add: map_of_eq_None_iff)
  show ?thesis
  proof (cases new)
    case None
    with assms pre have "add_entry groups k ap = Inr groups'"
      unfolding group_step_def by simp
    then show ?thesis using key new None mem by (auto dest: add_entry_keys)
  next
    case (Some d)
    obtain et icon expo fn where d: "d = (et, icon, expo, fn)" by (cases d) auto
    from assms pre Some d obtain c where
      "add_entry (groups @ [(k, \<lparr>problem_entries = [], mountain_icon = icon, elev_text = et,
                             fname = fn, expo_text = expo, comment = c, raw = []\<rparr>)]) k ap
        = Inr groups'"
      unfolding group_step_def by (auto simp: bindR_Inr_iff)
    then show ?thesis using key new Some mem by (auto dest: add_entry_keys)
  qed
qed

lemma filter_removeAll_in:
  "k \<in> K \<Longrightarrow> filter (\<lambda>x. x \<notin> K) (removeAll k xs) = filter (\<lambda>x. x \<notin> K) xs"
  by (induction xs) auto

lemma filter_insert_removeAll:
  "filter (\<lambda>x. x \<notin> insert k K) xs = filter (\<lambda>x. x \<notin> K) (removeAll k xs)"
  by (induction xs) auto

lemma group_loop_keys:
  "group_loop files groups aps = (files', Inr groups')
   \<Longrightarrow> \<exists>ks. map record_key aps = map Inr ks
          \<and> map fst groups' = map fst groups
                @ filter (\<lambda>k. k \<notin> set (map fst groups)) (first_seen ks)"
proof (induction aps arbitrary: files groups)
  case Nil
  then show ?case by simp
next
  case (Cons ap aps)
  obtain written r where step: "group_step groups ap = (written, r)"
    by (cases "group_step groups ap") auto
  with Cons.prems obtain groups1 where r: "r = Inr groups1"
    and rest: "group_loop (files @ written) groups1 aps = (files', Inr groups')"
    by (cases r) auto
  from step r obtain k where k: "record_key ap = Inr k"
    and k1: "map fst groups1 = (if k \<in> set (map fst groups) then map fst groups
                                else map fst groups @ [k])"
    using group_step_keys by blast
  from Cons.IH [OF rest] obtain ks where ks: "map record_key aps = map Inr ks"
    and g': "map fst groups' = map fst groups1
                @ filter (\<lambda>k. k \<notin> set (map fst groups1)) (first_seen ks)"
    by blast
  have "map record_key (ap # aps) = map Inr (k # ks)"
    using k ks by simp
  moreover have "map fst groups' = map fst groups
                @ filter (\<lambda>k. k \<notin> set (map fst groups)) (first_seen (k # ks))"
  proof (cases "k \<in> set (map fst groups)")
    case True
    then show ?thesis using g' k1 by (simp add: filter_removeAll_in)
  next
    case False
    then show ?thesis using g' k1
      by (simp add: filter_insert_removeAll [symmetric] insert_commute)
  qed
  ultimately show ?case by blast
qed

lemma first_seen_map_inj: "inj f \<Longrightarrow> first_seen (map f xs) = map f (first_seen xs)"
proof (induction xs)
  case Nil
  then show ?case by simp
next
  case (Cons x xs)
  have "removeAll (f x) (map f ys) = map f (removeAll x ys)" for ys
    using Cons.prems by (induction ys) (auto dest: injD)
  with Cons show ?case by simp
qed

lemma split_groups_filter:
  "split_groups ns os gs =
     (ns @ filter (\<lambda>g. \<not> is_pure_other (problem_entries g)) gs,
      os @ filter (\<lambda>g. is_pure_other (problem_entries g)) gs)"
  by (induction gs arbitrary: ns os) auto

lemma elev_text_icon_by_bounds:
  assumes "kvs \<noteq> []"
    and "py_get (JObj kvs) ''lowerBound'' = Inr lower"
    and "py_get (JObj kvs) ''upperBound'' = Inr upper"
  shows "(lower = JNull \<and> upper \<noteq> JNull \<longrightarrow>
            elev_text_icon (JObj kvs)
              = Inr (''en dessous de '' @ py_str upper @ ''m'', ''below_mountain.png''))
       \<and> (upper = JNull \<and> lower \<noteq> JNull \<longrightarrow>
            elev_text_icon (JObj kvs)
              = Inr ([CHR 0xC3, CHR 0xA0] @ '' plus de '' @ py_str lower @ ''m'',
                     ''above_mountain.png''))
       \<and> (lower \<noteq> JNull \<and> upper \<noteq> JNull \<longrightarrow>
            elev_text_icon (JObj kvs)
              = Inr (py_str lower @ ''-'' @ py_str upper @ ''m'', ''all_mountain.png''))
       \<and> (lower = JNull \<and> upper = JNull \<longrightarrow>
            elev_text_icon (JObj kvs) = Inr (''toutes les altitudes'', ''all_mountain.png''))
       \<and> elev_text_icon (JObj []) = Inr (''toutes les altitudes'', ''all_mountain.png'')
       \<and> elev_text_icon JNull = Inr (''toutes les altitudes'', ''all_mountain.png'')"
  using assms by (simp add: elev_text_icon_def bindR_def)

lemma atom_of_ANone: "atom_of v = Inr ANone \<longleftrightarrow> v = JNull"
  by (cases v) auto

lemma record_key_elev:
  assumes "record_key ap = Inr k"
  shows "\<exists>elev ek l u. py_get_default ap ''elevation'' (JObj []) = Inr elev
            \<and> elev_key elev = Inr (fst (fst k), l, u)
            \<and> atom_of l = Inr (fst (snd (fst k))) \<and> atom_of u = Inr (snd (snd (fst k)))"
  using assms
  by (auto simp: record_key_def raw_key_def hash_key_def bindR_Inr_iff split: prod.splits)

lemma elev_key_all:
  "elev_key elev = Inr (''all'', l, u) \<Longrightarrow> \<not> truthy elev"
  by (auto simp: elev_key_def bindR_Inr_iff split: if_splits)

lemma elev_key_range:
  "elev_key elev = Inr (''range'', l, u)
   \<Longrightarrow> truthy elev \<and> py_get elev ''lowerBound'' = Inr l \<and> py_get elev ''upperBound'' = Inr u"
  by (auto simp: elev_key_def bindR_Inr_iff split: if_splits)

lemma key_all_display:
  assumes "record_key ap = Inr k" and "fst (fst k) = ''all''"
    and "py_get_default ap ''elevation'' (JObj []) = Inr elev"
  shows "elev_text_icon elev = Inr (''toutes les altitudes'', ''all_mountain.png'')"
proof -
  from record_key_elev [OF assms(1)] assms(2,3) obtain l u where
    "elev_key elev = Inr (''all'', l, u)" by auto
  then have "\<not> truthy elev" by (rule elev_key_all)
  then show ?thesis by (simp add: elev_text_icon_def)
qed

lemma key_range_null_display:
  assumes "record_key ap = Inr k" and "fst k = (''range'', ANone, ANone)"
    and "py_get_default ap ''elevation'' (JObj []) = Inr elev"
  shows "elev_text_icon elev = Inr (''toutes les altitudes'', ''all_mountain.png'')"
proof -
  from record_key_elev [OF assms(1)] assms(2,3) obtain l u where
    ek: "elev_key elev = Inr (''range'', l, u)" and "atom_of l = Inr ANone" "atom_of u = Inr ANone"
    by auto
  then have "l = JNull" "u = JNull" by (simp_all add: atom_of_ANone)
  with elev_key_range [OF ek] show ?thesis
    by (simp add: elev_text_icon_def bindR_def)
qed

lemma add_entry_display:
  assumes "add_entry groups k0 ap = Inr groups'" and "(k, g') \<in> set groups'"
  shows "\<exists>g. (k, g) \<in> set groups \<and> elev_text g' = elev_text g
             \<and> mountain_icon g' = mountain_icon g"
proof -
  from assms(1) obtain pt german where
    "groups' = map (\<lambda>(k', g).
            if k' = k0
            then (k', g\<lparr>problem_entries := problem_entries g @ [(pt, german)],
                         raw := raw g @ [ap]\<rparr>)
            else (k', g)) groups"
    by (auto simp: add_entry_def bindR_Inr_iff)
  with assms(2) obtain k1 g1 where "(k1, g1) \<in> set groups"
    and "(k, g') = (if k1 = k0
            then (k1, g1\<lparr>problem_entries := problem_entries g1 @ [(pt, german)],
                         raw := raw g1 @ [ap]\<rparr>)
            else (k1, g1))"
    by auto
  then show ?thesis by (cases "k1 = k0") auto
qed

lemma group_step_display:
  assumes "group_step groups ap = (written, Inr groups')" and "(k, g') \<in> set groups'"
  shows "(\<exists>g. (k, g) \<in> set groups \<and> elev_text g' = elev_text g
               \<and> mountain_icon g' = mountain_icon g)
       \<or> (record_key ap = Inr k
          \<and> (\<exists>elev. py_get_default ap ''elevation'' (JObj []) = Inr elev
                \<and> elev_text_icon elev = Inr (elev_text g', mountain_icon g')))"
proof -
  let ?pre = "bindR (py_get_default ap ''elevation'' (JObj [])) (\<lambda>elev.
           bindR (py_get ap ''aspects'') (\<lambda>aspects.
           bindR (raw_key ap elev aspects) (\<lambda>rk.
           bindR (hash_key rk) (\<lambda>k.
           if map_of groups k = None then
             bindR (elev_text_icon elev) (\<lambda>(et, icon).
             bindR (expo_text_list aspects) (\<lambda>(expo, fr_asp_list).
             bindR (filename_for_expos fr_asp_list ''compass_fr_'' ''svg'') (\<lambda>fn.
             Inr (k, Some (et, icon, expo, fn)))))
           else Inr (k, None)))))"
  from assms(1) obtain k0 new where pre: "?pre = Inr (k0, new)"
    unfolding group_step_def by (cases ?pre) (auto split: prod.splits)
  show ?thesis
  proof (cases new)
    case None
    with assms(1) pre have "add_entry groups k0 ap = Inr groups'"
      unfolding group_step_def by simp
    from add_entry_display [OF this assms(2)] show ?thesis by blast
  next
    case (Some d)
    obtain et icon expo fn where d: "d = (et, icon, expo, fn)" by (cases d) auto
    from pre Some d have key: "record_key ap = Inr k0"
      and disp: "\<exists>elev. py_get_default ap ''elevation'' (JObj []) = Inr elev
                \<and> elev_text_icon elev = Inr (et, icon)"
      by (auto simp: record_key_def bindR_Inr_iff split: if_splits prod.splits)
    from assms(1) pre Some d obtain c where
      "add_entry (groups @ [(k0, \<lparr>problem_entries = [], mountain_icon = icon, elev_text = et,
                             fname = fn, expo_text = expo, comment = c, raw = []\<rparr>)]) k0 ap
        = Inr groups'"
      unfolding group_step_def by (auto simp: bindR_Inr_iff)
    from add_entry_display [OF this assms(2)] obtain g where
      g: "(k, g) \<in> set groups \<or> (k = k0 \<and> g = \<lparr>problem_entries = [], mountain_icon = icon,
              elev_text = et, fname = fn, expo_text = expo, comment = c, raw = []\<rparr>)"
      and same: "elev_text g' = elev_text g" "mountain_icon g' = mountain_icon g"
      by auto
    from g show ?thesis
    proof
      assume "(k, g) \<in> set groups"
      with same show ?thesis by blast
    next
      assume "k = k0 \<and> g = \<lparr>problem_entries = [], mountain_icon = icon,
              elev_text = et, fname = fn, expo_text = expo, comment = c, raw = []\<rparr>"
      with same key disp show ?thesis by auto
    qed
  qed
qed

lemma group_loop_display:
  assumes "group_loop files groups aps = (files', Inr groups')" and "(k, g') \<in> set groups'"
  shows "(\<exists>g. (k, g) \<in> set groups \<and> elev_text g' = elev_text g
               \<and> mountain_icon g' = mountain_icon g)
       \<or> (\<exists>ap \<in> set aps. record_key ap = Inr k
          \<and> (\<exists>elev. py_get_default ap ''elevation'' (JObj []) = Inr elev
                \<and> elev_text_icon elev = Inr (elev_text g', mountain_icon g')))"
  using assms
proof (induction aps arbitrary: files groups)
  case Nil
  then show ?case by auto
next
  case (Cons ap aps)
  obtain written r where step: "group_step groups ap = (written, r)"
    by (cases "group_step groups ap") auto
  with Cons.prems obtain groups1 where r: "r = Inr groups1"
    and rest: "group_loop (files @ written) groups1 aps = (files', Inr groups')"
    by (cases r) auto
  from Cons.IH [OF rest Cons.prems(2)] show ?case
  proof
    assume "\<exists>g. (k, g) \<in> set groups1 \<and> elev_text g' = elev_text g
               \<and> mountain_icon g' = mountain_icon g"
    then obtain g1 where g1: "(k, g1) \<in> set groups1" "elev_text g' = elev_text g1"
      "mountain_icon g' = mountain_icon g1" by blast
    from group_step_display [OF step [unfolded r] g1(1)] g1(2,3) show ?case
      by auto
  next
    assume "\<exists>ap \<in> set aps. record_key ap = Inr k
          \<and> (\<exists>elev. py_get_default ap ''elevation'' (JObj []) = Inr elev
                \<and> elev_text_icon elev = Inr (elev_text g', mountain_icon g'))"
    then show ?case by auto
  qed
qed

lemma set_first_seen: "set (first_seen xs) = set xs"
  by (induction xs) auto

lemma group_loop_member:
  assumes "group_loop [] [] aps = (files, Inr groups)" and "ap \<in> set aps"
  shows "\<exists>k g. record_key ap = Inr k \<and> (k, g) \<in> set groups"
proof -
  from group_loop_keys [OF assms(1)] obtain ks where
    ks: "map record_key aps = map Inr ks" and keys: "map fst groups = first_seen ks"
    by auto
  from assms(2) have "record_key ap \<in> set (map record_key aps)" by simp
  with ks obtain k where k: "record_key ap = Inr k" "k \<in> set ks" by auto
  then have "k \<in> set (map fst groups)" using keys by (simp add: set_first_seen)
  with k(1) show ?thesis by auto
qed

lemma record_key_fst:
  assumes "record_key ap = Inr k" and "py_get_default ap ''elevation'' (JObj []) = Inr elev"
    and "elev_key elev = Inr (t, JNull, JNull)"
  shows "fst k = (t, ANone, ANone)"
proof -
  from record_key_elev [OF assms(1)] assms(2,3) have
    "fst (fst k) = t" "fst (snd (fst k)) = ANone" "snd (snd (fst k)) = ANone"
    by auto
  then show ?thesis by (cases k) auto
qed

lemma filename_all_expos:
  "filename_for_expos [JStr ''N'', JStr ''NE'', JStr ''E'', JStr ''SE'',
                 JStr ''S'', JStr ''SO'', JStr ''O'', JStr ''NO''] ''compass_fr_'' ''svg''
   = Inr ''compass_fr_1d4f7bb0c8.svg''"
  by code_simp

lemma filename_N:
  "filename_for_expos [JStr ''N''] ''compass_fr_'' ''svg'' = Inr ''compass_fr_8d9c307cb7.svg''"
  by code_simp

lemmas run_group_loop =
  group_step_def raw_key_def hash_key_def elev_key_def aspects_key_def comment_key_def
  py_strip_def elev_text_icon_def expo_text_list_def py_join_def add_entry_def
  snow_type_def aspects_dict_def bindR_def py_get_def filename_all_expos filename_N

lemma add_entry_result:
  assumes "add_entry groups k ap = Inr groups'"
  shows "\<exists>e. problem_entry ap = Inr e
           \<and> groups' = map (\<lambda>(k', g).
                 if k' = k
                 then (k', g\<lparr>problem_entries := problem_entries g @ [e],
                              raw := raw g @ [ap]\<rparr>)
                 else (k', g)) groups"
  using assms by (auto simp: add_entry_def problem_entry_def bindR_Inr_iff)

lemma group_step_result:
  assumes "group_step groups ap = (written, Inr groups')"
  shows "\<exists>k e g0. record_key ap = Inr k \<and> problem_entry ap = Inr e
           \<and> problem_entries g0 = []
           \<and> groups' = map (\<lambda>(k', g).
                 if k' = k
                 then (k', g\<lparr>problem_entries := problem_entries g @ [e],
                              raw := raw g @ [ap]\<rparr>)
                 else (k', g))
               (if k \<in> set (map fst groups) then groups else groups @ [(k, g0)])"
proof -
  let ?pre = "bindR (py_get_default ap ''elevation'' (JObj [])) (\<lambda>elev.
           bindR (py_get ap ''aspects'') (\<lambda>aspects.
           bindR (raw_key ap elev aspects) (\<lambda>rk.
           bindR (hash_key rk) (\<lambda>k.
           if map_of groups k = None then
             bindR (elev_text_icon elev) (\<lambda>(et, icon).
             bindR (expo_text_list aspects) (\<lambda>(expo, fr_asp_list).
             bindR (filename_for_expos fr_asp_list ''compass_fr_'' ''svg'') (\<lambda>fn.
             Inr (k, Some (et, icon, expo, fn)))))
           else Inr (k, None)))))"
  from assms obtain k new where pre: "?pre = Inr (k, new)"
    unfolding group_step_def by (cases ?pre) (auto split: prod.splits)
  then have key: "record_key ap = Inr k"
    and new: "new = None \<longleftrightarrow> map_of groups k \<noteq> None"
    by (auto simp: record_key_def bindR_Inr_iff split: if_splits prod.splits)
  have mem: "map_of groups k \<noteq> None \<longleftrightarrow> k \<in> set (map fst groups)"
    by (simp add: map_of_eq_None_iff)
  show ?thesis
  proof (cases new)
    case None
    with assms pre have "add_entry groups k ap = Inr groups'"
      unfolding group_step_def by simp
    from add_entry_result [OF this] obtain e where
      "problem_entry ap = Inr e"
      "groups' = map (\<lambda>(k', g).
                 if k' = k
                 then (k', g\<lparr>problem_entries := problem_entries g @ [e],
                              raw := raw g @ [ap]\<rparr>)
                 else (k', g)) groups"
      by blast
    moreover from new None mem have "k \<in> set (map fst groups)" by simp
    ultimately show ?thesis using key
      by (intro exI [of _ k] exI [of _ e]
          exI [of _ "\<lparr>problem_entries = [], mountain_icon = [], elev_text = [],
                             fname = [], expo_text = [], comment = JNull, raw = []\<rparr>"]) simp
  next
    case (Some d)
    obtain et icon expo fn where d: "d = (et, icon, expo, fn)" by (cases d) auto
    from assms pre Some d obtain c where
      "add_entry (groups @ [(k, \<lparr>problem_entries = [], mountain_icon = icon, elev_text = et,
                             fname = fn, expo_text = expo, comment = c, raw = []\<rparr>)]) k ap
        = Inr groups'"
      unfolding group_step_def by (auto simp: bindR_Inr_iff)
    from add_entry_result [OF this] obtain e where
      e: "problem_entry ap = Inr e"
      and g': "groups' = map (\<lambda>(k', g).
                 if k' = k
                 then (k', g\<lparr>problem_entries := problem_entries g @ [e],
                              raw := raw g @ [ap]\<rparr>)
                 else (k', g))
            (groups @ [(k, \<lparr>problem_entries = [], mountain_icon = icon, elev_text = et,
                             fname = fn, expo_text = expo, comment = c, raw = []\<rparr>)])"
      by blast
    from new Some mem have "k \<notin> set (map fst groups)" by auto
    with key e g' show ?thesis
      by (intro exI [of _ k] exI [of _ e]
          exI [of _ "\<lparr>problem_entries = [], mountain_icon = icon, elev_text = et,
                             fname = fn, expo_text = expo, comment = c, raw = []\<rparr>"]) simp
  qed
qed

lemma grouped_step:
  assumes step: "group_step groups ap = (written, Inr groups')" and inv: "grouped seen groups"
  shows "grouped (seen @ [ap]) groups'"
proof -
  from group_step_result [OF step] obtain k e g0 where
    key: "record_key ap = Inr k" and e: "problem_entry ap = Inr e"
    and g0: "problem_entries g0 = []"
    and g': "groups' = map (\<lambda>(k', g).
                 if k' = k
                 then (k', g\<lparr>problem_entries := problem_entries g @ [e],
                              raw := raw g @ [ap]\<rparr>)
                 else (k', g))
               (if k \<in> set (map fst groups) then groups else groups @ [(k, g0)])"
    by blast
  let ?groups1 = "if k \<in> set (map fst groups) then groups else groups @ [(k, g0)]"
  from inv have d: "distinct (map fst groups)"
    and cover: "\<forall>ap \<in> set seen. \<exists>k \<in> set (map fst groups). record_key ap = Inr k"
    and ent: "\<forall>(k, g) \<in> set groups.
        map Inr (problem_entries g)
          = map problem_entry (filter (\<lambda>ap. record_key ap = Inr k) seen)"
    by (simp_all add: grouped_def)
  have keys': "map fst groups' = map fst ?groups1"
    unfolding g' by (induction ?groups1) (auto split: prod.splits)
  have keys1: "set (map fst ?groups1) = insert k (set (map fst groups))"
    by auto
  have d': "distinct (map fst groups')"
    unfolding keys' using d by auto
  have cover': "\<forall>a \<in> set (seen @ [ap]). \<exists>k \<in> set (map fst groups'). record_key a = Inr k"
    unfolding keys' keys1 using cover key by auto
  have ent1: "map Inr (problem_entries g)
          = map problem_entry (filter (\<lambda>a. record_key a = Inr k1) seen)"
    if "(k1, g) \<in> set ?groups1" for k1 g
  proof (cases "(k1, g) \<in> set groups")
    case True
    with ent show ?thesis by auto
  next
    case False
    with that have new: "k \<notin> set (map fst groups)" "k1 = k" "g = g0"
      by (auto split: if_splits)
    have "record_key a \<noteq> Inr k" if "a \<in> set seen" for a
    proof -
      from cover that obtain k' where "k' \<in> set (map fst groups)" "record_key a = Inr k'"
        by blast
      with new(1) show ?thesis by auto
    qed
    then have "filter (\<lambda>a. record_key a = Inr k) seen = []"
      by (simp add: filter_empty_conv)
    with new g0 show ?thesis by simp
  qed
  have ent': "map Inr (problem_entries g)
          = map problem_entry (filter (\<lambda>a. record_key a = Inr k1) (seen @ [ap]))"
    if "(k1, g) \<in> set groups'" for k1 g
  proof -
    from that g' obtain k2 g2 where in1: "(k2, g2) \<in> set ?groups1"
      and upd: "(k1, g) = (if k2 = k
                 then (k2, g2\<lparr>problem_entries := problem_entries g2 @ [e],
                              raw := raw g2 @ [ap]\<rparr>)
                 else (k2, g2))"
      by auto
    show ?thesis
    proof (cases "k2 = k")
      case True
      with upd have "k1 = k" "problem_entries g = problem_entries g2 @ [e]" by auto
      with ent1 [OF in1] True key e show ?thesis by simp
    next
      case False
      with upd have "k1 = k2" "g = g2" by auto
      with ent1 [OF in1] False key show ?thesis by auto
    qed
  qed
  from d' cover' ent' show ?thesis
    unfolding grouped_def by blast
qed

lemma grouped_loop:
  assumes "group_loop files groups aps = (files', Inr groups')" and "grouped seen groups"
  shows "grouped (seen @ aps) groups'"
  using assms
proof (induction aps arbitrary: files groups seen)
  case Nil
  then show ?case by simp
next
  case (Cons ap aps)
  obtain written r where step: "group_step groups ap = (written, r)"
    by (cases "group_step groups ap") auto
  with Cons.prems obtain groups1 where r: "r = Inr groups1"
    and rest: "group_loop (files @ written) groups1 aps = (files', Inr groups')"
    by (cases r) auto
  from grouped_step [OF step [unfolded r] Cons.prems(2)]
  have "grouped (seen @ [ap]) groups1" .
  from Cons.IH [OF rest this] show ?case by simp
qed

lemma group_loop_entries:
  assumes "group_loop [] [] aps = (files, Inr groups)"
  shows "distinct (map fst groups)
       \<and> (\<forall>(k, g) \<in> set groups.
            map Inr (problem_entries g)
              = map problem_entry (filter (\<lambda>ap. record_key ap = Inr k) aps))"
proof -
  have "grouped [] []" by (simp add: grouped_def)
  from grouped_loop [OF assms this] show ?thesis by (simp add: grouped_def)
qed

text \<open>
  C5. After a grouping that ran to its end, the groups stand in the order in which their
  keys are first seen among the records; the cards are rendered for the groups that are
  not purely ``other'' in that order, then for the purely ``other'' ones in that order;
  and a group is purely ``other'' exactly when every entry has the problem type
  \<^verbatim>\<open>no_distinct_avalanche_problem\<close>. The keys of the groups are distinct, and the
  entries of a group are the entries of the records with its key, in the order of the
  records.
\<close>

theorem grouping_partition_order:
  assumes "group_loop [] [] aps = (files, Inr groups)"
  shows "map (\<lambda>kg. Inr (fst kg)) groups = first_seen (map record_key aps)
       \<and> render_order groups
           = filter (\<lambda>g. \<not> is_pure_other (problem_entries g)) (map snd groups)
             @ filter (\<lambda>g. is_pure_other (problem_entries g)) (map snd groups)
       \<and> (\<forall>g. is_pure_other (problem_entries g)
                \<longleftrightarrow> (\<forall>e \<in> set (problem_entries g).
                       fst e = JStr ''no_distinct_avalanche_problem''))
       \<and> distinct (map fst groups)
       \<and> (\<forall>(k, g) \<in> set groups.
            map Inr (problem_entries g)
              = map problem_entry (filter (\<lambda>ap. record_key ap = Inr k) aps))"
proof -
  from group_loop_keys [OF assms] obtain ks where
    ks: "map record_key aps = map Inr ks" and keys: "map fst groups = first_seen ks"
    by auto
  have "map (\<lambda>kg. Inr (fst kg)) groups = map Inr (map fst groups)"
    by simp
  also have "\<dots> = first_seen (map Inr ks)"
    unfolding keys by (rule first_seen_map_inj [symmetric]) (simp add: inj_on_def)
  finally have order: "map (\<lambda>kg. Inr (fst kg)) groups = first_seen (map record_key aps)"
    using ks by simp
  have split: "render_order groups
           = filter (\<lambda>g. \<not> is_pure_other (problem_entries g)) (map snd groups)
             @ filter (\<lambda>g. is_pure_other (problem_entries g)) (map snd groups)"
    by (simp add: render_order_def split_groups_filter)
  have cls: "is_pure_other es \<longleftrightarrow> (\<forall>e \<in> set es. fst e = JStr ''no_distinct_avalanche_problem'')"
    for es
    by (auto simp: is_pure_other_def list_all_iff)
  from order split cls group_loop_entries [OF assms] show ?thesis by blast
qed

theorem grouping_partition_order_witness:
  "\<exists>files groups.
     group_loop [] []
       [JObj [(''problemType'', JStr ''no_distinct_avalanche_problem'')],
        JObj [(''problemType'', JStr ''wind_slab''), (''aspects'', JList [JStr ''N''])]]
       = (files, Inr groups)
   \<and> map fst groups = [((''all'', ANone, ANone), [AStr ''all''], []),
                       ((''all'', ANone, ANone), [AStr ''N''], [])]
   \<and> map (\<lambda>kg. Inr (fst kg)) groups
       = first_seen (map record_key
          [JObj [(''problemType'', JStr ''no_distinct_avalanche_problem'')],
           JObj [(''problemType'', JStr ''wind_slab''), (''aspects'', JList [JStr ''N''])]])
   \<and> map (map fst \<circ> problem_entries) (render_order groups)
       = [[JStr ''wind_slab''], [JStr ''no_distinct_avalanche_problem'']]"
proof -
  let ?aps = "[JObj [(''problemType'', JStr ''no_distinct_avalanche_problem'')],
        JObj [(''problemType'', JStr ''wind_slab''), (''aspects'', JList [JStr ''N''])]]"
  let ?files = "[''bulletin/static/images/compass_fr_1d4f7bb0c8.svg'',
                 ''bulletin/static/images/compass_fr_8d9c307cb7.svg'']"
  let ?groups = "[(((''all'', ANone, ANone), [AStr ''all''], []),
        \<lparr>problem_entries =
           [(JStr ''no_distinct_avalanche_problem'',
             JStr ''no_distinct_avalanche_problem'')],
           mountain_icon = ''all_mountain.png'',
           elev_text = ''toutes les altitudes'',
           fname = ''compass_fr_1d4f7bb0c8.svg'',
           expo_text = ''toutes les expositions'', comment = JNull,
           raw = [JObj [(''problemType'', JStr ''no_distinct_avalanche_problem'')]]\<rparr>),
       (((''all'', ANone, ANone), [AStr ''N''], []),
        \<lparr>problem_entries =
           [(JStr ''wind_slab'', JStr (''Neige souffl'' @ [CHR 0xC3, CHR 0xA9] @ ''e''))],
           mountain_icon = ''all_mountain.png'',
           elev_text = ''toutes les altitudes'',
           fname = ''compass_fr_8d9c307cb7.svg'', expo_text = ''N'',
           comment = JNull,
           raw = [JObj [(''problemType'', JStr ''wind_slab''),
                        (''aspects'', JList [JStr ''N''])]]\<rparr>)]"
  have run: "group_loop [] [] ?aps = (?files, Inr ?groups)"
    by (simp add: run_group_loop)
  note facts = grouping_partition_order [OF run]
  note order = facts [THEN conjunct1]
  note split = facts [THEN conjunct2, THEN conjunct1]
  have "map (map fst \<circ> problem_entries) (render_order ?groups)
       = [[JStr ''wind_slab''], [JStr ''no_distinct_avalanche_problem'']]"
    unfolding split by (simp add: is_pure_other_def)
  with run order show ?thesis
    by (intro exI [of _ ?files] exI [of _ ?groups]) simp
qed

text \<open>
  C8. Every group of a finished grouping has a record of its key whose elevation gives
  the text and the icon of the group: below the upper bound when only the upper bound is
  known, above the lower bound when only the lower bound is known, the range when both are
  known, all elevations when none is known or the elevation is absent or empty.
\<close>

theorem group_elevation_display:
  assumes "group_loop [] [] aps = (files, Inr groups)" and "(k, g) \<in> set groups"
  shows "\<exists>ap \<in> set aps. \<exists>elev lower upper.
           record_key ap = Inr k
         \<and> py_get_default ap ''elevation'' (JObj []) = Inr elev
         \<and> (truthy elev \<longrightarrow> py_get elev ''lowerBound'' = Inr lower
                              \<and> py_get elev ''upperBound'' = Inr upper)
         \<and> (\<not> truthy elev \<longrightarrow> lower = JNull \<and> upper = JNull)
         \<and> (lower = JNull \<and> upper \<noteq> JNull \<longrightarrow>
               elev_text g = ''en dessous de '' @ py_str upper @ ''m''
               \<and> mountain_icon g = ''below_mountain.png'')
         \<and> (upper = JNull \<and> lower \<noteq> JNull \<longrightarrow>
               elev_text g = [CHR 0xC3, CHR 0xA0] @ '' plus de '' @ py_str lower @ ''m''
               \<and> mountain_icon g = ''above_mountain.png'')
         \<and> (lower \<noteq> JNull \<and> upper \<noteq> JNull \<longrightarrow>
               elev_text g = py_str lower @ ''-'' @ py_str upper @ ''m''
               \<and> mountain_icon g = ''all_mountain.png'')
         \<and> (lower = JNull \<and> upper = JNull \<longrightarrow>
               elev_text g = ''toutes les altitudes''
               \<and> mountain_icon g = ''all_mountain.png'')"
proof -
  from group_loop_display [OF assms] obtain ap elev where
    ap: "ap \<in> set aps" "record_key ap = Inr k"
    and elev: "py_get_default ap ''elevation'' (JObj []) = Inr elev"
    and disp: "elev_text_icon elev = Inr (elev_text g, mountain_icon g)"
    by auto
  from record_key_elev [OF ap(2)] elev obtain t l u where ek: "elev_key elev = Inr (t, l, u)"
    by auto
  show ?thesis
  proof (cases "truthy elev")
    case True
    with ek have lu: "py_get elev ''lowerBound'' = Inr l" "py_get elev ''upperBound'' = Inr u"
      by (auto simp: elev_key_def bindR_Inr_iff)
    from True disp lu have d:
      "Inr (elev_text g, mountain_icon g) =
         (if l = JNull \<and> u \<noteq> JNull then
            Inr (''en dessous de '' @ py_str u @ ''m'', ''below_mountain.png'')
          else if u = JNull \<and> l \<noteq> JNull then
            Inr ([CHR 0xC3, CHR 0xA0] @ '' plus de '' @ py_str l @ ''m'',
                 ''above_mountain.png'')
          else Inr (if l \<noteq> JNull \<and> u \<noteq> JNull
                    then py_str l @ ''-'' @ py_str u @ ''m''
                    else ''toutes les altitudes'', ''all_mountain.png'')
            :: (string \<times> string) result)"
      by (simp add: elev_text_icon_def bindR_def)
    from d have "record_key ap = Inr k
         \<and> py_get_default ap ''elevation'' (JObj []) = Inr elev
         \<and> (truthy elev \<longrightarrow> py_get elev ''lowerBound'' = Inr l
                              \<and> py_get elev ''upperBound'' = Inr u)
         \<and> (\<not> truthy elev \<longrightarrow> l = JNull \<and> u = JNull)
         \<and> (l = JNull \<and> u \<noteq> JNull \<longrightarrow>
               elev_text g = ''en dessous de '' @ py_str u @ ''m''
               \<and> mountain_icon g = ''below_mountain.png'')
         \<and> (u = JNull \<and> l \<noteq> JNull \<longrightarrow>
               elev_text g = [CHR 0xC3, CHR 0xA0] @ '' plus de '' @ py_str l @ ''m''
               \<and> mountain_icon g = ''above_mountain.png'')
         \<and> (l \<noteq> JNull \<and> u \<noteq> JNull \<longrightarrow>
               elev_text g = py_str l @ ''-'' @ py_str u @ ''m''
               \<and> mountain_icon g = ''all_mountain.png'')
         \<and> (l = JNull \<and> u = JNull \<longrightarrow>
               elev_text g = ''toutes les altitudes''
               \<and> mountain_icon g = ''all_mountain.png'')"
      using ap(2) elev lu True by (cases "l = JNull"; cases "u = JNull"; simp)
    with ap(1) show ?thesis by blast
  next
    case False
    with disp have "elev_text g = ''toutes les altitudes''"
      "mountain_icon g = ''all_mountain.png''"
      by (simp_all add: elev_text_icon_def)
    with ap(2) elev False have "record_key ap = Inr k
         \<and> py_get_default ap ''elevation'' (JObj []) = Inr elev
         \<and> (truthy elev \<longrightarrow> py_get elev ''lowerBound'' = Inr JNull
                              \<and> py_get elev ''upperBound'' = Inr JNull)
         \<and> (\<not> truthy elev \<longrightarrow> JNull = JNull \<and> JNull = JNull)
         \<and> (JNull = JNull \<and> JNull \<noteq> JNull \<longrightarrow>
               elev_text g = ''en dessous de '' @ py_str JNull @ ''m''
               \<and> mountain_icon g = ''below_mountain.png'')
         \<and> (JNull = JNull \<and> JNull \<noteq> JNull \<longrightarrow>
               elev_text g = [CHR 0xC3, CHR 0xA0] @ '' plus de '' @ py_str JNull @ ''m''
               \<and> mountain_icon g = ''above_mountain.png'')
         \<and> (JNull \<noteq> JNull \<and> JNull \<noteq> JNull \<longrightarrow>
               elev_text g = py_str JNull @ ''-'' @ py_str JNull @ ''m''
               \<and> mountain_icon g = ''all_mountain.png'')
         \<and> (JNull = JNull \<and> JNull = JNull \<longrightarrow>
               elev_text g = ''toutes les altitudes''
               \<and> mountain_icon g = ''all_mountain.png'')"
      by simp
    with ap(1) show ?thesis by blast
  qed
qed

theorem group_elevation_display_witness:
  "\<exists>files k g.
     group_loop [] []
       [JObj [(''problemType'', JStr ''wind_slab''),
              (''elevation'', JObj [(''lowerBound'', JStr ''2200'')])]]
       = (files, Inr [(k, g)])
   \<and> elev_text g = [CHR 0xC3, CHR 0xA0] @ '' plus de 2200m''
   \<and> mountain_icon g = ''above_mountain.png''
   \<and> (\<exists>ap \<in> set [JObj [(''problemType'', JStr ''wind_slab''),
                        (''elevation'', JObj [(''lowerBound'', JStr ''2200'')])]].
        \<exists>elev lower upper.
           record_key ap = Inr k
         \<and> py_get_default ap ''elevation'' (JObj []) = Inr elev
         \<and> (truthy elev \<longrightarrow> py_get elev ''lowerBound'' = Inr lower
                              \<and> py_get elev ''upperBound'' = Inr upper)
         \<and> (\<not> truthy elev \<longrightarrow> lower = JNull \<and> upper = JNull)
         \<and> (lower = JNull \<and> upper \<noteq> JNull \<longrightarrow>
               elev_text g = ''en dessous de '' @ py_str upper @ ''m''
               \<and> mountain_icon g = ''below_mountain.png'')
         \<and> (upper = JNull \<and> lower \<noteq> JNull \<longrightarrow>
               elev_text g = [CHR 0xC3, CHR 0xA0] @ '' plus de '' @ py_str lower @ ''m''
               \<and> mountain_icon g = ''above_mountain.png'')
         \<and> (lower \<noteq> JNull \<and> upper \<noteq> JNull \<longrightarrow>
               elev_text g = py_str lower @ ''-'' @ py_str upper @ ''m''
               \<and> mountain_icon g = ''all_mountain.png'')
         \<and> (lower = JNull \<and> upper = JNull \<longrightarrow>
               elev_text g = ''toutes les altitudes''
               \<and> mountain_icon g = ''all_mountain.png''))"
proof -
  let ?aps = "[JObj [(''problemType'', JStr ''wind_slab''),
              (''elevation'', JObj [(''lowerBound'', JStr ''2200'')])]]"
  let ?files = "[''bulletin/static/images/compass_fr_1d4f7bb0c8.svg'']"
  let ?k = "((''range'', AStr ''2200'', ANone), [AStr ''all''], [])"
  let ?g = "\<lparr>problem_entries =
           [(JStr ''wind_slab'', JStr (''Neige souffl'' @ [CHR 0xC3, CHR 0xA9] @ ''e''))],
           mountain_icon = ''above_mountain.png'',
           elev_text = [CHR 0xC3, CHR 0xA0] @ '' plus de 2200m'',
           fname = ''compass_fr_1d4f7bb0c8.svg'',
           expo_text = ''toutes les expositions'', comment = JNull,
           raw = [JObj [(''problemType'', JStr ''wind_slab''),
                        (''elevation'', JObj [(''lowerBound'', JStr ''2200'')])]]\<rparr>"
  have run: "group_loop [] [] ?aps = (?files, Inr [(?k, ?g)])"
    by (simp add: run_group_loop)
  have mem: "(?k, ?g) \<in> set [(?k, ?g)]"
    by simp
  note shown = group_elevation_display [OF run mem]
  have "elev_text ?g = [CHR 0xC3, CHR 0xA0] @ '' plus de 2200m''"
    "mountain_icon ?g = ''above_mountain.png''"
    by simp_all
  with run shown show ?thesis
    by (intro exI [of _ ?files] exI [of _ ?k] exI [of _ ?g] conjI)
qed

text \<open>
  C10. A non-empty elevation dictionary without a lower and an upper bound has the key
  \<^verbatim>\<open>('range', None, None)\<close>, not the key \<^verbatim>\<open>('all', None, None)\<close> of an absent or
  empty elevation, while the texts and icons are the same; in a finished grouping a record
  of the first kind and a record of the second kind are in two groups, both shown with
  the text for all elevations and the icon \<^verbatim>\<open>all_mountain.png\<close>.
\<close>

theorem null_bounds_separate_group:
  assumes "kvs \<noteq> []"
    and "py_get (JObj kvs) ''lowerBound'' = Inr JNull"
    and "py_get (JObj kvs) ''upperBound'' = Inr JNull"
  shows "elev_key (JObj kvs) = Inr (''range'', JNull, JNull)
       \<and> elev_key JNull = Inr (''all'', JNull, JNull)
       \<and> elev_key (JObj []) = Inr (''all'', JNull, JNull)
       \<and> elev_key (JObj kvs) \<noteq> elev_key JNull
       \<and> elev_key (JObj kvs) \<noteq> elev_key (JObj [])
       \<and> elev_text_icon (JObj kvs) = Inr (''toutes les altitudes'', ''all_mountain.png'')
       \<and> elev_text_icon JNull = Inr (''toutes les altitudes'', ''all_mountain.png'')
       \<and> elev_text_icon (JObj []) = Inr (''toutes les altitudes'', ''all_mountain.png'')
       \<and> (\<forall>aps files groups ap ap'.
            group_loop [] [] aps = (files, Inr groups) \<and> ap \<in> set aps \<and> ap' \<in> set aps
            \<and> py_get_default ap ''elevation'' (JObj []) = Inr (JObj kvs)
            \<and> py_get_default ap' ''elevation'' (JObj []) \<in> {Inr JNull, Inr (JObj [])}
            \<longrightarrow> (\<exists>k g k' g'. record_key ap = Inr k \<and> record_key ap' = Inr k' \<and> k \<noteq> k'
                   \<and> (k, g) \<in> set groups \<and> (k', g') \<in> set groups
                   \<and> elev_text g = ''toutes les altitudes''
                   \<and> elev_text g' = ''toutes les altitudes''
                   \<and> mountain_icon g = ''all_mountain.png''
                   \<and> mountain_icon g' = ''all_mountain.png''))"
proof -
  have ek: "elev_key (JObj kvs) = Inr (''range'', JNull, JNull)"
    using assms by (simp add: elev_key_def bindR_def)
  have ea: "elev_key JNull = Inr (''all'', JNull, JNull)"
    "elev_key (JObj []) = Inr (''all'', JNull, JNull)"
    by (simp_all add: elev_key_def)
  have et: "elev_text_icon (JObj kvs) = Inr (''toutes les altitudes'', ''all_mountain.png'')"
    "elev_text_icon JNull = Inr (''toutes les altitudes'', ''all_mountain.png'')"
    "elev_text_icon (JObj []) = Inr (''toutes les altitudes'', ''all_mountain.png'')"
    using assms by (simp_all add: elev_text_icon_def bindR_def)
  have groups: "\<exists>k g k' g'. record_key ap = Inr k \<and> record_key ap' = Inr k' \<and> k \<noteq> k'
                   \<and> (k, g) \<in> set groups \<and> (k', g') \<in> set groups
                   \<and> elev_text g = ''toutes les altitudes''
                   \<and> elev_text g' = ''toutes les altitudes''
                   \<and> mountain_icon g = ''all_mountain.png''
                   \<and> mountain_icon g' = ''all_mountain.png''"
    if loop: "group_loop [] [] aps = (files, Inr groups)"
      and mem: "ap \<in> set aps" "ap' \<in> set aps"
      and e: "py_get_default ap ''elevation'' (JObj []) = Inr (JObj kvs)"
      and e': "py_get_default ap' ''elevation'' (JObj []) \<in> {Inr JNull, Inr (JObj [])}"
    for aps files groups ap ap'
  proof -
    from group_loop_member [OF loop mem(1)] obtain k g where
      k: "record_key ap = Inr k" "(k, g) \<in> set groups" by blast
    from group_loop_member [OF loop mem(2)] obtain k' g' where
      k': "record_key ap' = Inr k'" "(k', g') \<in> set groups" by blast
    have fk: "fst k = (''range'', ANone, ANone)"
      using record_key_fst [OF k(1) e ek] .
    from e' obtain elev' where elev': "py_get_default ap' ''elevation'' (JObj []) = Inr elev'"
      "elev_key elev' = Inr (''all'', JNull, JNull)"
      using ea by auto
    have fk': "fst k' = (''all'', ANone, ANone)"
      using record_key_fst [OF k'(1) elev'] .
    from fk fk' have ne: "k \<noteq> k'" by auto
    from group_loop_display [OF loop k(2)] obtain ap0 elev0 where
      "record_key ap0 = Inr k" "py_get_default ap0 ''elevation'' (JObj []) = Inr elev0"
      "elev_text_icon elev0 = Inr (elev_text g, mountain_icon g)"
      by auto
    with key_range_null_display [OF this(1) fk this(2)]
    have d: "elev_text g = ''toutes les altitudes''" "mountain_icon g = ''all_mountain.png''"
      by simp_all
    from group_loop_display [OF loop k'(2)] obtain ap1 elev1 where
      a1: "record_key ap1 = Inr k'" "py_get_default ap1 ''elevation'' (JObj []) = Inr elev1"
      "elev_text_icon elev1 = Inr (elev_text g', mountain_icon g')"
      by auto
    from fk' have "fst (fst k') = ''all''" by simp
    from key_all_display [OF a1(1) this a1(2)] a1(3)
    have d': "elev_text g' = ''toutes les altitudes''" "mountain_icon g' = ''all_mountain.png''"
      by simp_all
    from k k' ne d d' show ?thesis by blast
  qed
  have ne: "elev_key (JObj kvs) \<noteq> elev_key JNull" "elev_key (JObj kvs) \<noteq> elev_key (JObj [])"
    using ek ea by simp_all
  from groups have all: "\<forall>aps files groups ap ap'.
            group_loop [] [] aps = (files, Inr groups) \<and> ap \<in> set aps \<and> ap' \<in> set aps
            \<and> py_get_default ap ''elevation'' (JObj []) = Inr (JObj kvs)
            \<and> py_get_default ap' ''elevation'' (JObj []) \<in> {Inr JNull, Inr (JObj [])}
            \<longrightarrow> (\<exists>k g k' g'. record_key ap = Inr k \<and> record_key ap' = Inr k' \<and> k \<noteq> k'
                   \<and> (k, g) \<in> set groups \<and> (k', g') \<in> set groups
                   \<and> elev_text g = ''toutes les altitudes''
                   \<and> elev_text g' = ''toutes les altitudes''
                   \<and> mountain_icon g = ''all_mountain.png''
                   \<and> mountain_icon g' = ''all_mountain.png'')"
    by blast
  from ek ea ne et all show ?thesis by blast
qed

theorem null_bounds_separate_group_witness:
  "elev_key (JObj [(''lowerBound'', JNull)]) = Inr (''range'', JNull, JNull)
   \<and> elev_key (JObj [(''lowerBound'', JNull)]) \<noteq> elev_key (JObj [])
   \<and> elev_text_icon (JObj [(''lowerBound'', JNull)])
       = Inr (''toutes les altitudes'', ''all_mountain.png'')
   \<and> (\<exists>files groups.
        group_loop [] []
          [JObj [(''problemType'', JStr ''wind_slab'')],
           JObj [(''problemType'', JStr ''wind_slab''),
                 (''elevation'', JObj [(''lowerBound'', JNull)])]]
          = (files, Inr groups)
      \<and> map fst groups = [((''all'', ANone, ANone), [AStr ''all''], []),
                          ((''range'', ANone, ANone), [AStr ''all''], [])]
      \<and> (\<exists>k g k' g'.
            record_key (JObj [(''problemType'', JStr ''wind_slab''),
                              (''elevation'', JObj [(''lowerBound'', JNull)])]) = Inr k
          \<and> record_key (JObj [(''problemType'', JStr ''wind_slab'')]) = Inr k'
          \<and> k \<noteq> k' \<and> (k, g) \<in> set groups \<and> (k', g') \<in> set groups
          \<and> elev_text g = ''toutes les altitudes''
          \<and> elev_text g' = ''toutes les altitudes''
          \<and> mountain_icon g = ''all_mountain.png''
          \<and> mountain_icon g' = ''all_mountain.png''))"
proof -
  let ?ap' = "JObj [(''problemType'', JStr ''wind_slab'')]"
  let ?ap = "JObj [(''problemType'', JStr ''wind_slab''),
                   (''elevation'', JObj [(''lowerBound'', JNull)])]"
  let ?files = "[''bulletin/static/images/compass_fr_1d4f7bb0c8.svg'',
                 ''bulletin/static/images/compass_fr_1d4f7bb0c8.svg'']"
  let ?groups = "[(((''all'', ANone, ANone), [AStr ''all''], []),
        \<lparr>problem_entries =
           [(JStr ''wind_slab'', JStr (''Neige souffl'' @ [CHR 0xC3, CHR 0xA9] @ ''e''))],
           mountain_icon = ''all_mountain.png'',
           elev_text = ''toutes les altitudes'',
           fname = ''compass_fr_1d4f7bb0c8.svg'',
           expo_text = ''toutes les expositions'', comment = JNull,
           raw = [?ap']\<rparr>),
       (((''range'', ANone, ANone), [AStr ''all''], []),
        \<lparr>problem_entries =
           [(JStr ''wind_slab'', JStr (''Neige souffl'' @ [CHR 0xC3, CHR 0xA9] @ ''e''))],
           mountain_icon = ''all_mountain.png'',
           elev_text = ''toutes les altitudes'',
           fname = ''compass_fr_1d4f7bb0c8.svg'',
           expo_text = ''toutes les expositions'', comment = JNull,
           raw = [?ap]\<rparr>)]"
  have run: "group_loop [] [] [?ap', ?ap] = (?files, Inr ?groups)"
    by (simp add: run_group_loop)
  have kvs: "[(''lowerBound'', JNull)] \<noteq> []"
    "py_get (JObj [(''lowerBound'', JNull)]) ''lowerBound'' = Inr JNull"
    "py_get (JObj [(''lowerBound'', JNull)]) ''upperBound'' = Inr JNull"
    by (simp_all add: py_get_def)
  note facts = null_bounds_separate_group [OF kvs]
  have pre: "group_loop [] [] [?ap', ?ap] = (?files, Inr ?groups)
      \<and> ?ap \<in> set [?ap', ?ap] \<and> ?ap' \<in> set [?ap', ?ap]
      \<and> py_get_default ?ap ''elevation'' (JObj []) = Inr (JObj [(''lowerBound'', JNull)])
      \<and> py_get_default ?ap' ''elevation'' (JObj []) \<in> {Inr JNull, Inr (JObj [])}"
    using run by simp
  from facts have "\<forall>aps files groups ap ap'.
            group_loop [] [] aps = (files, Inr groups) \<and> ap \<in> set aps \<and> ap' \<in> set aps
            \<and> py_get_default ap ''elevation'' (JObj []) = Inr (JObj [(''lowerBound'', JNull)])
            \<and> py_get_default ap' ''elevation'' (JObj []) \<in> {Inr JNull, Inr (JObj [])}
            \<longrightarrow> (\<exists>k g k' g'. record_key ap = Inr k \<and> record_key ap' = Inr k' \<and> k \<noteq> k'
                   \<and> (k, g) \<in> set groups \<and> (k', g') \<in> set groups
                   \<and> elev_text g = ''toutes les altitudes''
                   \<and> elev_text g' = ''toutes les altitudes''
                   \<and> mountain_icon g = ''all_mountain.png''
                   \<and> mountain_icon g' = ''all_mountain.png'')"
    by blast
  from this [rule_format, OF pre] have two:
    "\<exists>k g k' g'. record_key ?ap = Inr k \<and> record_key ?ap' = Inr k' \<and> k \<noteq> k'
                   \<and> (k, g) \<in> set ?groups \<and> (k', g') \<in> set ?groups
                   \<and> elev_text g = ''toutes les altitudes''
                   \<and> elev_text g' = ''toutes les altitudes''
                   \<and> mountain_icon g = ''all_mountain.png''
                   \<and> mountain_icon g' = ''all_mountain.png''" .
  have keys: "map fst ?groups = [((''all'', ANone, ANone), [AStr ''all''], []),
                          ((''range'', ANone, ANone), [AStr ''all''], [])]"
    by simp
  from facts have a: "elev_key (JObj [(''lowerBound'', JNull)]) = Inr (''range'', JNull, JNull)"
    and b: "elev_key (JObj [(''lowerBound'', JNull)]) \<noteq> elev_key (JObj [])"
    and c: "elev_text_icon (JObj [(''lowerBound'', JNull)])
       = Inr (''toutes les altitudes'', ''all_mountain.png'')"
    by blast+
  from run keys two have "\<exists>files groups.
        group_loop [] [] [?ap', ?ap] = (files, Inr groups)
      \<and> map fst groups = [((''all'', ANone, ANone), [AStr ''all''], []),
                          ((''range'', ANone, ANone), [AStr ''all''], [])]
      \<and> (\<exists>k g k' g'. record_key ?ap = Inr k \<and> record_key ?ap' = Inr k'
          \<and> k \<noteq> k' \<and> (k, g) \<in> set groups \<and> (k', g') \<in> set groups
          \<and> elev_text g = ''toutes les altitudes''
          \<and> elev_text g' = ''toutes les altitudes''
          \<and> mountain_icon g = ''all_mountain.png''
          \<and> mountain_icon g' = ''all_mountain.png'')"
    by (intro exI [of _ ?files] exI [of _ ?groups] conjI)
  with a b c show ?thesis by (intro conjI)
qed


section \<open>Properties of the compass file name\<close>

text \<open>Two test vectors of RFC 1321 for the model of MD5.\<close>

lemma md5_hexdigest_empty: "md5_hexdigest [] = ''d41d8cd98f00b204e9800998ecf8427e''"
  by code_simp

lemma md5_hexdigest_abc: "md5_hexdigest ''abc'' = ''900150983cd24fb0d6963f7d28e17f72''"
  by code_simp

















section \<open>Properties of the script\<close>

text \<open>
  The danger level that \<open>highest_warning\<close> returns is a number: in every comparison of
  the loop the right operand is a number, so that a comparison that does not raise has a
  number on the left as well.
\<close>

lemma py_gt_numeric:
  "num_of b \<noteq> None \<Longrightarrow> py_gt a b = Inr h \<Longrightarrow> num_of a \<noteq> None"
  by (cases a; cases b) (auto simp: py_gt_def split: option.splits)

lemma table_get_warning_numbers_numeric:
  "num_of m \<noteq> None \<Longrightarrow> table_get warning_numbers m m = Inr v \<Longrightarrow> num_of v \<noteq> None"
  by (cases m) auto

lemma highest_warning_loop_numeric:
  assumes "highest_warning_loop mainValue drs = Inr (Some v)"
    and "\<forall>m. mainValue = Some m \<longrightarrow> num_of m \<noteq> None"
  shows "num_of v \<noteq> None"
  using assms
proof (induction drs arbitrary: mainValue)
  case Nil
  then show ?case by simp
next
  case (Cons dr drs)
  from Cons.prems(1) obtain old_warning mainValue' new_warning higher where
    old: "(case mainValue of
              None \<Rightarrow> Inr (JInt 0)
            | Some m \<Rightarrow> if m \<noteq> JNull then table_get warning_numbers m m else Inr (JInt 0))
          = Inr old_warning"
    and new: "table_get warning_numbers mainValue' mainValue' = Inr new_warning"
    and gt: "py_gt new_warning old_warning = Inr higher"
    and rest: "highest_warning_loop (Some (if higher then new_warning else old_warning)) drs
          = Inr (Some v)"
    by (auto simp: bindR_Inr_iff)
  have o: "num_of old_warning \<noteq> None"
  proof (cases mainValue)
    case None
    with old show ?thesis by auto
  next
    case (Some m)
    with Cons.prems(2) have nm: "num_of m \<noteq> None" by simp
    show ?thesis
    proof (cases "m = JNull")
      case True
      with old Some show ?thesis by auto
    next
      case False
      with old Some have "table_get warning_numbers m m = Inr old_warning" by simp
      from table_get_warning_numbers_numeric [OF nm this] show ?thesis .
    qed
  qed
  from py_gt_numeric [OF o gt] have n: "num_of new_warning \<noteq> None" .
  from Cons.IH [OF rest] o n show ?case by auto
qed

lemma highest_warning_numeric:
  "highest_warning region_info = Inr v \<Longrightarrow> num_of v \<noteq> None"
  by (auto simp: highest_warning_def bindR_Inr_iff split: option.splits
      dest!: highest_warning_loop_numeric)

text \<open>
  No run writes the document: \<open>footer_date\<close> raises before line 588 is reached. The
  option \<^verbatim>\<open>--out\<close> has no effect on a run. When the region is not found the script
  prints its message and writes nothing; when it is found the run ends with an exception.
\<close>

lemma main_html_file_None: "html_file (main args BASE ACTIVE_AT data) = None"
  by (simp add: main_def footer_date_def bindR_def split: sum.splits prod.splits)

lemma main_out_ignored:
  "main (args\<lparr>out := p\<rparr>) BASE ACTIVE_AT data = main args BASE ACTIVE_AT data"
  by (simp add: main_def)

lemma main_region_absent:
  assumes "find_region data = Inr region_info" and "\<not> truthy region_info"
  shows "main args BASE ACTIVE_AT data
     = \<lparr>printed = [''Region de CH-4211 introuvable.''], compass_files = [],
        html_file = None, raised = None\<rparr>"
  using assms by (simp add: main_def REGION_ID_def)

lemma main_region_found_raises:
  assumes "find_region data = Inr region_info" and "truthy region_info"
  shows "raised (main args BASE ACTIVE_AT data) \<noteq> None
       \<and> printed (main args BASE ACTIVE_AT data) = []"
  using assms
  by (simp add: main_def footer_date_def bindR_def split: sum.splits prod.splits)

text \<open>
  C1 at a payload that holds the region \<^verbatim>\<open>CH-4211\<close> with one rating and no problem,
  run with \<^verbatim>\<open>--out bulletin/output/bulletin.html\<close>: the run ends with
  \<^verbatim>\<open>AttributeError\<close> and no document is written, neither at the path given by
  \<^verbatim>\<open>--out\<close> nor elsewhere. On every input no document is written, and the path the
  script would write to does not depend on \<^verbatim>\<open>--out\<close>.
\<close>

theorem main_region_found_no_html:
  "main \<lparr>date = ''today'', out = ''bulletin/output/bulletin.html''\<rparr> ''/repo/bulletin'' ()
     (JObj [(''features'', JList [JObj [(''properties'', JObj
        [(''regions'', JList [JObj [(''regionID'', JStr ''CH-4211'')]]),
         (''dangerRatings'', JList [JObj [(''mainValue'', JStr ''considerable''),
            (''customData'', JObj [(''CH'', JObj [(''subdivision'', JStr ''plus'')])])]]),
         (''avalancheProblems'', JList [])])]])])
   = \<lparr>printed = [], compass_files = [], html_file = None, raised = Some AttributeError\<rparr>
   \<and> html_file (main args BASE ACTIVE_AT data) = None
   \<and> main (args\<lparr>out := p\<rparr>) BASE ACTIVE_AT data = main args BASE ACTIVE_AT data"
proof -
  have "main \<lparr>date = ''today'', out = ''bulletin/output/bulletin.html''\<rparr> ''/repo/bulletin'' ()
     (JObj [(''features'', JList [JObj [(''properties'', JObj
        [(''regions'', JList [JObj [(''regionID'', JStr ''CH-4211'')]]),
         (''dangerRatings'', JList [JObj [(''mainValue'', JStr ''considerable''),
            (''customData'', JObj [(''CH'', JObj [(''subdivision'', JStr ''plus'')])])]]),
         (''avalancheProblems'', JList [])])]])])
   = \<lparr>printed = [], compass_files = [], html_file = None, raised = Some AttributeError\<rparr>"
    by code_simp
  then show ?thesis
    using main_html_file_None [where args = args and BASE = BASE
        and ACTIVE_AT = ACTIVE_AT and data = data]
      main_out_ignored [where args = args and p = p and BASE = BASE
        and ACTIVE_AT = ACTIVE_AT and data = data]
    by blast
qed

end
